theory Spec2Isabelle
  imports Complex_Main "HOL-Library.Sublist" "HOL-Library.Multiset"
begin

section \<open>Values of the JMX document\<close>

text \<open>
  The exporter reads one JSON document per scrape and decodes it with \<^verbatim>\<open>encoding/json\<close>
  into \<^verbatim>\<open>jmxEnvelope\<close>, whose beans are \<^verbatim>\<open>map[string]interface{}\<close>. The dynamic values
  such an interface can hold after decoding are \<^verbatim>\<open>nil\<close>, \<^verbatim>\<open>bool\<close>, \<^verbatim>\<open>float64\<close>,
  \<^verbatim>\<open>string\<close>, \<^verbatim>\<open>[]interface{}\<close> and \<^verbatim>\<open>map[string]interface{}\<close>; \<open>json\<close> is that
  universe. A JSON number always decodes to a finite \<^verbatim>\<open>float64\<close>; the program never
  computes with it (it is passed through, or replaced by the constants 0 and 1), so the
  float is carried as the real number it denotes. Strings are byte strings (UTF-8).
  An object keeps its members in document order.
\<close>

datatype json =
    JNull
  | JBool bool
  | JNum real
  | JStr string
  | JArr "json list"
  | JObj "(string \<times> json) list"

text \<open>\<^verbatim>\<open>type jmxBean map[string]interface{}\<close>\<close>

type_synonym jmxBean = "string \<rightharpoonup> json"

text \<open>\<^verbatim>\<open>type jmxEnvelope struct { Beans []jmxBean `json:"beans"` }\<close>\<close>

record jmxEnvelope =
  Beans :: "jmxBean list"

text \<open>
  \<^verbatim>\<open>nameDataMap[key]\<close>: indexing a Go map with an absent key (or indexing a nil map)
  yields the zero value of the element type, here the nil interface.
\<close>

definition index :: "jmxBean \<Rightarrow> string \<Rightarrow> json" where
  "index nameDataMap key = (case nameDataMap key of None \<Rightarrow> JNull | Some v \<Rightarrow> v)"

section \<open>Descriptors and metrics\<close>

datatype ValueType = CounterValue | GaugeValue | UntypedValue

text \<open>A descriptor without labels: its fully qualified name and its help string.\<close>

datatype Desc = Desc (fqName: string) (help_text: string)

datatype Metric = Metric (desc: Desc) (valType: ValueType) (val: real)

text \<open>\<^verbatim>\<open>prometheus.BuildFQName\<close>: the non-empty parts joined by an underscore.\<close>

definition BuildFQName :: "string \<Rightarrow> string \<Rightarrow> string \<Rightarrow> string" where
  "BuildFQName ns subsystem name =
     (if name = [] then []
      else if ns \<noteq> [] \<and> subsystem \<noteq> [] then ns @ ''_'' @ subsystem @ ''_'' @ name
      else if ns \<noteq> [] then ns @ ''_'' @ name
      else if subsystem \<noteq> [] then subsystem @ ''_'' @ name
      else name)"

text \<open>\<^verbatim>\<open>prometheus.NewDesc(fqName, help, nil, nil)\<close>\<close>

definition NewDesc :: "string \<Rightarrow> string \<Rightarrow> Desc" where
  "NewDesc name h = Desc name h"

text \<open>
  \<^verbatim>\<open>prometheus.MustNewConstMetric(desc, valueType, value)\<close> with no label values, on a
  descriptor without labels: the constant metric.
\<close>

definition MustNewConstMetric :: "Desc \<Rightarrow> ValueType \<Rightarrow> real \<Rightarrow> Metric" where
  "MustNewConstMetric d valueType v = Metric d valueType v"

definition mustNewConstBoolMetric :: "Desc \<Rightarrow> ValueType \<Rightarrow> bool \<Rightarrow> Metric" where
  "mustNewConstBoolMetric d valueType b =
     (let fval = (if b then 1 else 0) in MustNewConstMetric d valueType fval)"

section \<open>The exporter\<close>

definition namespace :: string where
  "namespace = ''namenode''"

record Exporter =
  url :: string
  up :: Desc
  uptime :: Desc
  state :: Desc
  fsOperational :: Desc
  safemodeOn :: Desc
  dataNodesLive :: Desc
  dataNodesDead :: Desc
  dfsFilesTotal :: Desc
  dfsPercentUsed :: Desc
  dfsPercentRemaining :: Desc
  dfsCapacityBytesTotal :: Desc
  dfsCapacityBytesUsed :: Desc
  dfsCapacityBytesRemaining :: Desc
  dfsNonDfsBytesUsed :: Desc
  dfsBlocksTotal :: Desc
  dfsBlocksUnderReplicated :: Desc
  dfsBlocksPendingReplication :: Desc
  dfsBlocksScheduledReplication :: Desc
  dfsBlocksPostponedMisreplicated :: Desc
  dfsBlocksPendingDeletion :: Desc
  dfsBlocksMissing :: Desc
  dfsBlocksCorrupt :: Desc
  dfsBlocksExcess :: Desc
  dfsBlockPoolBytesUsed :: Desc
  dfsBlockPoolPercentUsed :: Desc
  jvmLogFatal :: Desc
  jvmLogError :: Desc
  jvmLogWarn :: Desc
  jvmLogInfo :: Desc
  jvmMemHeapMegabytesUsed :: Desc
  jvmMemHeapMegabytesCommitted :: Desc
  jvmMemNonHeapMegabytesUsed :: Desc
  jvmMemNonHeapMegabytesCommitted :: Desc
  jvmThreadsNew :: Desc
  jvmThreadsRunnable :: Desc
  jvmThreadsBlocked :: Desc
  jvmThreadsWaiting :: Desc
  jvmThreadsTimedWaiting :: Desc
  jvmThreadsTerminated :: Desc

text \<open>
  \<^verbatim>\<open>NewExporter(url, timeout)\<close>. The HTTP client it builds is not part of the model: what
  \<^verbatim>\<open>httpClient.Get\<close> returns is an input of \<open>Collect\<close> below.
\<close>

definition NewExporter :: "string \<Rightarrow> Exporter" where
  "NewExporter u = \<lparr>
     url = u,
     up = NewDesc (BuildFQName namespace '''' ''up'') ''Could the namenode be reached.'',
     uptime = NewDesc (BuildFQName namespace '''' ''uptime_seconds'')
       ''Number of seconds since the namenode started.'',
     state = NewDesc (BuildFQName namespace '''' ''state'')
       ''Indicate namenode state (0 - standby, 1 - active).'',
     fsOperational = NewDesc (BuildFQName namespace '''' ''fs_operational'')
       ''The filesystem state of this namenode.'',
     safemodeOn = NewDesc (BuildFQName namespace '''' ''safemode_on'')
       ''The safemode state of this namenode.'',
     dataNodesLive = NewDesc (BuildFQName namespace '''' ''data_nodes_live'')
       ''The number of live datanodes in this DFS.'',
     dataNodesDead = NewDesc (BuildFQName namespace '''' ''data_nodes_dead'')
       ''The number of dead datanodes in this DFS.'',
     dfsFilesTotal = NewDesc (BuildFQName namespace ''dfs'' ''files_total'')
       ''Total number of files in DFS.'',
     dfsPercentUsed = NewDesc (BuildFQName namespace ''dfs'' ''percent_used'')
       ''TODO(fahlke): describe this metric'',
     dfsPercentRemaining = NewDesc (BuildFQName namespace ''dfs'' ''percent_remaining'')
       ''TODO(fahlke): describe this metric'',
     dfsCapacityBytesTotal = NewDesc (BuildFQName namespace ''dfs'' ''capacity_bytes_total'')
       ''Total configured DFS storage capacity in bytes.'',
     dfsCapacityBytesUsed = NewDesc (BuildFQName namespace ''dfs'' ''capacity_bytes_used'')
       ''The usage of the DFS in bytes.'',
     dfsCapacityBytesRemaining = NewDesc (BuildFQName namespace ''dfs'' ''capacity_bytes_remaining'')
       ''The remaining capacity of the DFS in bytes.'',
     dfsNonDfsBytesUsed = NewDesc (BuildFQName namespace ''dfs'' ''non_dfs_bytes_used'')
       ''Non-DFS usage in bytes.'',
     dfsBlocksTotal = NewDesc (BuildFQName namespace ''dfs'' ''blocks_total'')
       ''Total blocks in DFS.'',
     dfsBlocksUnderReplicated = NewDesc (BuildFQName namespace ''dfs'' ''blocks_under_replicated'')
       ''Under replicated blocks in DFS.'',
     dfsBlocksPendingReplication =
       NewDesc (BuildFQName namespace ''dfs'' ''blocks_pending_replication'')
       ''TODO(fahlke): describe this metric'',
     dfsBlocksScheduledReplication =
       NewDesc (BuildFQName namespace ''dfs'' ''blocks_scheduled_replication'')
       ''TODO(fahlke): describe this metric'',
     dfsBlocksPostponedMisreplicated =
       NewDesc (BuildFQName namespace ''dfs'' ''blocks_postponed_misreplicated'')
       ''TODO(fahlke): describe this metric'',
     dfsBlocksPendingDeletion = NewDesc (BuildFQName namespace ''dfs'' ''blocks_pending_deletion'')
       ''TODO(fahlke): describe this metric'',
     dfsBlocksMissing = NewDesc (BuildFQName namespace ''dfs'' ''blocks_missing'')
       ''Missing blocks in DFS.'',
     dfsBlocksCorrupt = NewDesc (BuildFQName namespace ''dfs'' ''blocks_corrupt'')
       ''Corrupted blocks in DFS.'',
     dfsBlocksExcess = NewDesc (BuildFQName namespace ''dfs'' ''blocks_excess'')
       ''Excess blocks in DFS.'',
     dfsBlockPoolBytesUsed = NewDesc (BuildFQName namespace ''dfs'' ''block_pool_bytes_used'')
       ''TODO(fahlke): describe this metric'',
     dfsBlockPoolPercentUsed = NewDesc (BuildFQName namespace ''dfs'' ''block_pool_percent_used'')
       ''TODO(fahlke): describe this metric'',
     jvmLogFatal = NewDesc (BuildFQName namespace ''jvm'' ''log_fatal'')
       ''TODO(fahlke): describe this metric'',
     jvmLogError = NewDesc (BuildFQName namespace ''jvm'' ''log_error'')
       ''TODO(fahlke): describe this metric'',
     jvmLogWarn = NewDesc (BuildFQName namespace ''jvm'' ''log_warn'')
       ''TODO(fahlke): describe this metric'',
     jvmLogInfo = NewDesc (BuildFQName namespace ''jvm'' ''log_info'')
       ''TODO(fahlke): describe this metric'',
     jvmMemHeapMegabytesUsed = NewDesc (BuildFQName namespace ''jvm'' ''mem_heap_megabytes_used'')
       ''TODO(fahlke): describe this metric'',
     jvmMemHeapMegabytesCommitted =
       NewDesc (BuildFQName namespace ''jvm'' ''mem_heap_megabytes_committed'')
       ''TODO(fahlke): describe this metric'',
     jvmMemNonHeapMegabytesUsed =
       NewDesc (BuildFQName namespace ''jvm'' ''mem_non_heap_megabytes_used'')
       ''TODO(fahlke): describe this metric'',
     jvmMemNonHeapMegabytesCommitted =
       NewDesc (BuildFQName namespace ''jvm'' ''mem_non_heap_megabytes_committed'')
       ''TODO(fahlke): describe this metric'',
     jvmThreadsNew = NewDesc (BuildFQName namespace ''jvm'' ''threads_new'')
       ''TODO(fahlke): describe this metric'',
     jvmThreadsRunnable = NewDesc (BuildFQName namespace ''jvm'' ''threads_runnable'')
       ''TODO(fahlke): describe this metric'',
     jvmThreadsBlocked = NewDesc (BuildFQName namespace ''jvm'' ''threads_blocked'')
       ''TODO(fahlke): describe this metric'',
     jvmThreadsWaiting = NewDesc (BuildFQName namespace ''jvm'' ''threads_waiting'')
       ''TODO(fahlke): describe this metric'',
     jvmThreadsTimedWaiting = NewDesc (BuildFQName namespace ''jvm'' ''threads_timed_waiting'')
       ''TODO(fahlke): describe this metric'',
     jvmThreadsTerminated = NewDesc (BuildFQName namespace ''jvm'' ''threads_terminated'')
       ''TODO(fahlke): describe this metric''
   \<rparr>"

text \<open>\<^verbatim>\<open>Describe\<close>: the descriptors sent on the channel, in the order of the sends.\<close>

definition Describe :: "Exporter \<Rightarrow> Desc list" where
  "Describe e =
     [up e, uptime e, state e, fsOperational e, safemodeOn e, dataNodesLive e, dataNodesDead e,
      dfsFilesTotal e, dfsPercentUsed e, dfsPercentRemaining e, dfsCapacityBytesTotal e,
      dfsCapacityBytesUsed e, dfsCapacityBytesRemaining e, dfsNonDfsBytesUsed e,
      dfsBlocksTotal e, dfsBlocksUnderReplicated e, dfsBlocksPendingReplication e,
      dfsBlocksScheduledReplication e, dfsBlocksPostponedMisreplicated e,
      dfsBlocksPendingDeletion e, dfsBlocksMissing e, dfsBlocksCorrupt e, dfsBlocksExcess e,
      dfsBlockPoolBytesUsed e, dfsBlockPoolPercentUsed e,
      jvmLogFatal e, jvmLogError e, jvmLogWarn e, jvmLogInfo e, jvmMemHeapMegabytesUsed e,
      jvmMemHeapMegabytesCommitted e, jvmMemNonHeapMegabytesUsed e,
      jvmMemNonHeapMegabytesCommitted e, jvmThreadsNew e, jvmThreadsRunnable e,
      jvmThreadsBlocked e, jvmThreadsWaiting e, jvmThreadsTimedWaiting e,
      jvmThreadsTerminated e]"

section \<open>Decoding the response body\<close>

text \<open>
  \<^verbatim>\<open>json.NewDecoder(resp.Body).Decode(&envelope)\<close> is the library's. Its reading of the bytes
  is taken as given: the body is \<open>None\<close> when no JSON value can be read from it (read error,
  empty body, syntax error) or a number inside a bean is outside \<^verbatim>\<open>float64\<close>, which makes
  \<^verbatim>\<open>Decode\<close> return an error as well, and \<open>Some v\<close> with the first JSON value of the stream
  otherwise. A number in a member that is skipped is never converted. What is modelled is how that value is stored into a
  \<^verbatim>\<open>jmxEnvelope\<close>, by the rules of \<^verbatim>\<open>encoding/json\<close> for the declared types:
  \<^item> \<^verbatim>\<open>null\<close> leaves a struct as it is, and sets a slice or a map to nil;
  \<^item> an object is stored into the struct member by member, in document order; a member
    whose name equals the field's key \<^verbatim>\<open>beans\<close> under case folding is stored into \<open>Beans\<close>,
    every other member is skipped;
  \<^item> an array is stored into the slice element by element, into the element already at
    that index when there is one, and the slice is cut to the length of the array;
  \<^item> an object is stored into a map by setting each member in turn (a nil map is
    allocated first, an existing one keeps its entries);
  \<^item> any other combination is an \<^verbatim>\<open>UnmarshalTypeError\<close>: the value is skipped, decoding goes
    on, and \<^verbatim>\<open>Decode\<close> returns the error at the end.
  A nil map and an empty map read the same, and both are \<open>Map.empty\<close>.
\<close>

datatype decode_error = ReadOrSyntaxError | UnmarshalTypeError

definition foldByte :: "char \<Rightarrow> char" where
  "foldByte c =
     (if (65::nat) \<le> of_char c \<and> (of_char c :: nat) \<le> 90 then char_of (of_char c + (32::nat))
      else c)"

text \<open>
  Case folding of a member name, as far as it can reach the letters of \<^verbatim>\<open>beans\<close>: ASCII
  capitals, and U+017F (LATIN SMALL LETTER LONG S, the bytes C5 BF), which folds to \<^verbatim>\<open>s\<close>.
\<close>

fun foldName :: "string \<Rightarrow> string" where
  "foldName [] = []"
| "foldName (c # cs) =
     (if c = CHR 0xC5 \<and> take 1 cs = [CHR 0xBF] then CHR ''s'' # foldName (drop 1 cs)
      else foldByte c # foldName cs)"

definition isBeansKey :: "string \<Rightarrow> bool" where
  "isBeansKey key = (foldName key = ''beans'')"

text \<open>Storing one array element into a \<^verbatim>\<open>jmxBean\<close>; the flag reports a type error.\<close>

fun decodeBean :: "jmxBean \<Rightarrow> json \<Rightarrow> jmxBean \<times> bool" where
  "decodeBean old (JObj members) = (fold (\<lambda>(k, v) m. m(k \<mapsto> v)) members old, False)"
| "decodeBean old JNull = (Map.empty, False)"
| "decodeBean old v = (old, True)"

fun decodeElems :: "jmxBean list \<Rightarrow> json list \<Rightarrow> jmxBean list \<times> bool" where
  "decodeElems backing [] = ([], False)"
| "decodeElems backing (v # vs) =
     (let (b, err) = decodeBean (case backing of [] \<Rightarrow> Map.empty | old # _ \<Rightarrow> old) v;
          (bs, errs) = decodeElems (tl backing) vs
      in (b # bs, err \<or> errs))"

text \<open>
  A slice is its backing array and its length. Storing a JSON value into \<open>Beans\<close>:
  an empty array gives a fresh empty slice.
\<close>

fun decodeSlice :: "jmxBean list \<times> nat \<Rightarrow> json \<Rightarrow> (jmxBean list \<times> nat) \<times> bool" where
  "decodeSlice (backing, n) (JArr vs) =
     (if vs = [] then (([], 0), False)
      else let (bs, err) = decodeElems backing vs
           in ((bs @ drop (length vs) backing, length vs), err))"
| "decodeSlice (backing, n) JNull = (([], 0), False)"
| "decodeSlice (backing, n) v = ((backing, n), True)"

fun decodeMembers ::
  "(string \<times> json) list \<Rightarrow> (jmxBean list \<times> nat) \<times> bool \<Rightarrow> (jmxBean list \<times> nat) \<times> bool" where
  "decodeMembers [] acc = acc"
| "decodeMembers ((key, v) # members) (slice, err) =
     (if isBeansKey key
      then (let (slice', err') = decodeSlice slice v in decodeMembers members (slice', err \<or> err'))
      else decodeMembers members (slice, err))"

definition Decode :: "json option \<Rightarrow> decode_error + jmxEnvelope" where
  "Decode body =
     (case body of
        None \<Rightarrow> Inl ReadOrSyntaxError
      | Some JNull \<Rightarrow> Inr \<lparr>Beans = []\<rparr>
      | Some (JObj members) \<Rightarrow>
          (let ((backing, n), err) = decodeMembers members (([], 0), False)
           in if err then Inl UnmarshalTypeError else Inr \<lparr>Beans = take n backing\<rparr>)
      | Some v \<Rightarrow> Inl UnmarshalTypeError)"

section \<open>Collect\<close>

text \<open>
  The unchecked type assertion \<^verbatim>\<open>x.(float64)\<close> panics unless the dynamic type of \<open>x\<close> is
  \<^verbatim>\<open>float64\<close>. The panic carries the value that was found.
\<close>

datatype panic = TypeAssertionError json

definition float64 :: "json \<Rightarrow> panic + real" where
  "float64 x = (case x of JNum f \<Rightarrow> Inr f | v \<Rightarrow> Inl (TypeAssertionError v))"

text \<open>
  The right-hand side of the send
  \<^verbatim>\<open>ch <- prometheus.MustNewConstMetric(d, valueType, x.(float64))\<close>:
  the arguments are evaluated first, so a failed assertion panics before anything is sent.
\<close>

definition constMetric :: "Desc \<Rightarrow> ValueType \<Rightarrow> json \<Rightarrow> panic + Metric" where
  "constMetric d valueType x =
     (case float64 x of Inl p \<Rightarrow> Inl p | Inr f \<Rightarrow> Inr (MustNewConstMetric d valueType f))"

text \<open>
  The right-hand side of \<^verbatim>\<open>ch <- mustNewConstBoolMetric(d, valueType, cond)\<close>. The condition
  compares an interface value with a string constant, which is true exactly when the
  dynamic value is that string, and never panics.
\<close>

definition boolMetric :: "Desc \<Rightarrow> ValueType \<Rightarrow> bool \<Rightarrow> panic + Metric" where
  "boolMetric d valueType cond = Inr (mustNewConstBoolMetric d valueType cond)"

text \<open>
  What one run of \<open>Collect\<close> leaves behind: the metrics sent on the channel, in order, and
  the panic that ended the run, if one did. Nothing in \<open>Collect\<close> recovers a panic.
\<close>

record run =
  sent :: "Metric list"
  panicked :: "panic option"

text \<open>
  The body of the \<^verbatim>\<open>switch nameDataMap["name"]\<close>: the sends of the matching case, in
  program order, each as the value of its right-hand side. No case matches a name that
  is not one of the six strings (or not a string at all).
\<close>

definition switch_name :: "Exporter \<Rightarrow> jmxBean \<Rightarrow> (panic + Metric) list" where
  "switch_name e nameDataMap =
    (if index nameDataMap ''name'' = JStr ''java.lang:type=Runtime'' then
       [constMetric (uptime e) GaugeValue (index nameDataMap ''Uptime'')]
     else if index nameDataMap ''name'' = JStr ''Hadoop:service=NameNode,name=NameNodeStatus'' then
       [boolMetric (state e) GaugeValue (index nameDataMap ''State'' = JStr ''active'')]
     else if index nameDataMap ''name'' = JStr ''Hadoop:service=NameNode,name=FSNamesystem'' then
       [constMetric (dfsBlocksTotal e) GaugeValue (index nameDataMap ''BlocksTotal''),
        constMetric (dfsBlocksUnderReplicated e) GaugeValue
          (index nameDataMap ''UnderReplicatedBlocks''),
        constMetric (dfsBlocksPendingReplication e) GaugeValue
          (index nameDataMap ''PendingReplicationBlocks''),
        constMetric (dfsBlocksScheduledReplication e) GaugeValue
          (index nameDataMap ''ScheduledReplicationBlocks''),
        constMetric (dfsBlocksPostponedMisreplicated e) GaugeValue
          (index nameDataMap ''PostponedMisreplicatedBlocks''),
        constMetric (dfsBlocksPendingDeletion e) GaugeValue
          (index nameDataMap ''PendingDeletionBlocks''),
        constMetric (dfsBlocksMissing e) GaugeValue (index nameDataMap ''MissingBlocks''),
        constMetric (dfsBlocksCorrupt e) GaugeValue (index nameDataMap ''CorruptBlocks''),
        constMetric (dfsBlocksExcess e) GaugeValue (index nameDataMap ''ExcessBlocks'')]
     else if index nameDataMap ''name'' = JStr ''Hadoop:service=NameNode,name=FSNamesystemState'' then
       [boolMetric (fsOperational e) GaugeValue (index nameDataMap ''FSState'' = JStr ''Operational''),
        constMetric (dataNodesLive e) GaugeValue (index nameDataMap ''NumLiveDataNodes''),
        constMetric (dataNodesDead e) GaugeValue (index nameDataMap ''NumDeadDataNodes''),
        constMetric (dfsFilesTotal e) GaugeValue (index nameDataMap ''FilesTotal''),
        constMetric (dfsCapacityBytesTotal e) GaugeValue (index nameDataMap ''CapacityTotal''),
        constMetric (dfsCapacityBytesUsed e) GaugeValue (index nameDataMap ''CapacityUsed''),
        constMetric (dfsCapacityBytesRemaining e) GaugeValue
          (index nameDataMap ''CapacityRemaining'')]
     else if index nameDataMap ''name'' = JStr ''Hadoop:service=NameNode,name=NameNodeInfo'' then
       [boolMetric (safemodeOn e) GaugeValue (index nameDataMap ''Safemode'' \<noteq> JStr ''''),
        constMetric (dfsPercentUsed e) GaugeValue (index nameDataMap ''PercentUsed''),
        constMetric (dfsPercentRemaining e) GaugeValue (index nameDataMap ''PercentRemaining''),
        constMetric (dfsNonDfsBytesUsed e) GaugeValue (index nameDataMap ''NonDfsUsedSpace''),
        constMetric (dfsBlockPoolBytesUsed e) GaugeValue (index nameDataMap ''BlockPoolUsedSpace''),
        constMetric (dfsBlockPoolPercentUsed e) GaugeValue
          (index nameDataMap ''PercentBlockPoolUsed'')]
     else if index nameDataMap ''name'' = JStr ''Hadoop:service=NameNode,name=JvmMetrics'' then
       [constMetric (jvmLogFatal e) CounterValue (index nameDataMap ''LogFatal''),
        constMetric (jvmLogError e) CounterValue (index nameDataMap ''LogError''),
        constMetric (jvmLogWarn e) CounterValue (index nameDataMap ''LogWarn''),
        constMetric (jvmLogInfo e) CounterValue (index nameDataMap ''LogInfo''),
        constMetric (jvmMemHeapMegabytesUsed e) GaugeValue (index nameDataMap ''MemHeapUsedM''),
        constMetric (jvmMemHeapMegabytesCommitted e) GaugeValue
          (index nameDataMap ''MemHeapCommittedM''),
        constMetric (jvmMemNonHeapMegabytesUsed e) GaugeValue
          (index nameDataMap ''MemNonHeapUsedM''),
        constMetric (jvmMemNonHeapMegabytesCommitted e) GaugeValue
          (index nameDataMap ''MemNonHeapCommittedM''),
        constMetric (jvmThreadsNew e) GaugeValue (index nameDataMap ''ThreadsNew''),
        constMetric (jvmThreadsRunnable e) GaugeValue (index nameDataMap ''ThreadsRunnable''),
        constMetric (jvmThreadsBlocked e) GaugeValue (index nameDataMap ''ThreadsBlocked''),
        constMetric (jvmThreadsWaiting e) GaugeValue (index nameDataMap ''ThreadsWaiting''),
        constMetric (jvmThreadsTimedWaiting e) GaugeValue
          (index nameDataMap ''ThreadsTimedWaiting''),
        constMetric (jvmThreadsTerminated e) GaugeValue (index nameDataMap ''ThreadsTerminated'')]
     else [])"

text \<open>Running the sends of one case on the channel: the first panic ends the run.\<close>

fun sends :: "(panic + Metric) list \<Rightarrow> Metric list \<Rightarrow> run" where
  "sends [] ch = \<lparr>sent = ch, panicked = None\<rparr>"
| "sends (Inl p # rest) ch = \<lparr>sent = ch, panicked = Some p\<rparr>"
| "sends (Inr m # rest) ch = sends rest (ch @ [m])"

text \<open>\<^verbatim>\<open>for _, nameDataMap := range envelope.Beans { switch ... }\<close>\<close>

fun range_Beans :: "Exporter \<Rightarrow> jmxBean list \<Rightarrow> Metric list \<Rightarrow> run" where
  "range_Beans e [] ch = \<lparr>sent = ch, panicked = None\<rparr>"
| "range_Beans e (nameDataMap # beans) ch =
     (let r = sends (switch_name e nameDataMap) ch
      in case panicked r of None \<Rightarrow> range_Beans e beans (sent r) | Some p \<Rightarrow> r)"

text \<open>
  What \<^verbatim>\<open>e.httpClient.Get(e.url)\<close> returns: an error, or a response with its status code and
  its body. The deferred drain and close of the body, and the log lines, leave no trace on
  the channel and are not modelled.
\<close>

datatype get_result = GetError | GetResponse (StatusCode: int) (Body: "json option")

definition StatusOK :: int where
  "StatusOK = 200"

definition Collect :: "Exporter \<Rightarrow> get_result \<Rightarrow> run" where
  "Collect e got =
     (case got of
        GetError \<Rightarrow> \<lparr>sent = [MustNewConstMetric (up e) GaugeValue 0], panicked = None\<rparr>
      | GetResponse code body \<Rightarrow>
          if code \<noteq> StatusOK
          then \<lparr>sent = [MustNewConstMetric (up e) GaugeValue 0], panicked = None\<rparr>
          else (case Decode body of
                  Inl err \<Rightarrow> \<lparr>sent = [MustNewConstMetric (up e) GaugeValue 0], panicked = None\<rparr>
                | Inr envelope \<Rightarrow>
                    range_Beans e (Beans envelope) [MustNewConstMetric (up e) GaugeValue 1]))"

section \<open>Reading a run\<close>

text \<open>
  Two readings of the sends of one case, used to state what a run leaves on the channel:
  the metrics delivered before the first panic, and that panic.
\<close>

fun delivered :: "(panic + Metric) list \<Rightarrow> Metric list" where
  "delivered [] = []"
| "delivered (Inl p # rest) = []"
| "delivered (Inr m # rest) = m # delivered rest"

fun first_panic :: "(panic + Metric) list \<Rightarrow> panic option" where
  "first_panic [] = None"
| "first_panic (Inl p # rest) = Some p"
| "first_panic (Inr m # rest) = first_panic rest"

section \<open>The field mapping table\<close>

text \<open>
  The specification describes the translation as a static table from (bean name, field
  name) to a metric identity and a coercion rule: numeric pass-through, equality of a
  string with a fixed value, non-emptiness of a string. The table below is written from
  the comments on the fields of the \<^verbatim>\<open>Exporter\<close> struct, which name the bean and the field each
  descriptor is fed from and say whether it is a gauge or a counter; its rows are in the
  order of the struct (which is the order of \<open>Describe\<close> after \<open>up\<close>). It is a second
  description of the translation, compared below with the switch of \<open>Collect\<close>.
\<close>

datatype coercion = Numeric | EqualsString string | NonEmptyString

datatype mapping_row =
  Row (row_desc: "Exporter \<Rightarrow> Desc") (row_type: ValueType) (row_bean: string)
    (row_field: string) (row_rule: coercion)

definition field_mapping :: "mapping_row list" where
  "field_mapping =
     [Row uptime GaugeValue ''java.lang:type=Runtime'' ''Uptime'' Numeric,
      Row state GaugeValue ''Hadoop:service=NameNode,name=NameNodeStatus'' ''State''
        (EqualsString ''active''),
      Row fsOperational GaugeValue ''Hadoop:service=NameNode,name=FSNamesystemState''
        ''FSState'' (EqualsString ''Operational''),
      Row safemodeOn GaugeValue ''Hadoop:service=NameNode,name=NameNodeInfo'' ''Safemode''
        NonEmptyString,
      Row dataNodesLive GaugeValue ''Hadoop:service=NameNode,name=FSNamesystemState''
        ''NumLiveDataNodes'' Numeric,
      Row dataNodesDead GaugeValue ''Hadoop:service=NameNode,name=FSNamesystemState''
        ''NumDeadDataNodes'' Numeric,
      Row dfsFilesTotal GaugeValue ''Hadoop:service=NameNode,name=FSNamesystemState''
        ''FilesTotal'' Numeric,
      Row dfsPercentUsed GaugeValue ''Hadoop:service=NameNode,name=NameNodeInfo''
        ''PercentUsed'' Numeric,
      Row dfsPercentRemaining GaugeValue ''Hadoop:service=NameNode,name=NameNodeInfo''
        ''PercentRemaining'' Numeric,
      Row dfsCapacityBytesTotal GaugeValue ''Hadoop:service=NameNode,name=FSNamesystemState''
        ''CapacityTotal'' Numeric,
      Row dfsCapacityBytesUsed GaugeValue ''Hadoop:service=NameNode,name=FSNamesystemState''
        ''CapacityUsed'' Numeric,
      Row dfsCapacityBytesRemaining GaugeValue
        ''Hadoop:service=NameNode,name=FSNamesystemState'' ''CapacityRemaining'' Numeric,
      Row dfsNonDfsBytesUsed GaugeValue ''Hadoop:service=NameNode,name=NameNodeInfo''
        ''NonDfsUsedSpace'' Numeric,
      Row dfsBlocksTotal GaugeValue ''Hadoop:service=NameNode,name=FSNamesystem''
        ''BlocksTotal'' Numeric,
      Row dfsBlocksUnderReplicated GaugeValue ''Hadoop:service=NameNode,name=FSNamesystem''
        ''UnderReplicatedBlocks'' Numeric,
      Row dfsBlocksPendingReplication GaugeValue ''Hadoop:service=NameNode,name=FSNamesystem''
        ''PendingReplicationBlocks'' Numeric,
      Row dfsBlocksScheduledReplication GaugeValue
        ''Hadoop:service=NameNode,name=FSNamesystem'' ''ScheduledReplicationBlocks'' Numeric,
      Row dfsBlocksPostponedMisreplicated GaugeValue
        ''Hadoop:service=NameNode,name=FSNamesystem'' ''PostponedMisreplicatedBlocks'' Numeric,
      Row dfsBlocksPendingDeletion GaugeValue ''Hadoop:service=NameNode,name=FSNamesystem''
        ''PendingDeletionBlocks'' Numeric,
      Row dfsBlocksMissing GaugeValue ''Hadoop:service=NameNode,name=FSNamesystem''
        ''MissingBlocks'' Numeric,
      Row dfsBlocksCorrupt GaugeValue ''Hadoop:service=NameNode,name=FSNamesystem''
        ''CorruptBlocks'' Numeric,
      Row dfsBlocksExcess GaugeValue ''Hadoop:service=NameNode,name=FSNamesystem''
        ''ExcessBlocks'' Numeric,
      Row dfsBlockPoolBytesUsed GaugeValue ''Hadoop:service=NameNode,name=NameNodeInfo''
        ''BlockPoolUsedSpace'' Numeric,
      Row dfsBlockPoolPercentUsed GaugeValue ''Hadoop:service=NameNode,name=NameNodeInfo''
        ''PercentBlockPoolUsed'' Numeric,
      Row jvmLogFatal CounterValue ''Hadoop:service=NameNode,name=JvmMetrics''
        ''LogFatal'' Numeric,
      Row jvmLogError CounterValue ''Hadoop:service=NameNode,name=JvmMetrics''
        ''LogError'' Numeric,
      Row jvmLogWarn CounterValue ''Hadoop:service=NameNode,name=JvmMetrics''
        ''LogWarn'' Numeric,
      Row jvmLogInfo CounterValue ''Hadoop:service=NameNode,name=JvmMetrics''
        ''LogInfo'' Numeric,
      Row jvmMemHeapMegabytesUsed GaugeValue ''Hadoop:service=NameNode,name=JvmMetrics''
        ''MemHeapUsedM'' Numeric,
      Row jvmMemHeapMegabytesCommitted GaugeValue ''Hadoop:service=NameNode,name=JvmMetrics''
        ''MemHeapCommittedM'' Numeric,
      Row jvmMemNonHeapMegabytesUsed GaugeValue ''Hadoop:service=NameNode,name=JvmMetrics''
        ''MemNonHeapUsedM'' Numeric,
      Row jvmMemNonHeapMegabytesCommitted GaugeValue
        ''Hadoop:service=NameNode,name=JvmMetrics'' ''MemNonHeapCommittedM'' Numeric,
      Row jvmThreadsNew GaugeValue ''Hadoop:service=NameNode,name=JvmMetrics''
        ''ThreadsNew'' Numeric,
      Row jvmThreadsRunnable GaugeValue ''Hadoop:service=NameNode,name=JvmMetrics''
        ''ThreadsRunnable'' Numeric,
      Row jvmThreadsBlocked GaugeValue ''Hadoop:service=NameNode,name=JvmMetrics''
        ''ThreadsBlocked'' Numeric,
      Row jvmThreadsWaiting GaugeValue ''Hadoop:service=NameNode,name=JvmMetrics''
        ''ThreadsWaiting'' Numeric,
      Row jvmThreadsTimedWaiting GaugeValue ''Hadoop:service=NameNode,name=JvmMetrics''
        ''ThreadsTimedWaiting'' Numeric,
      Row jvmThreadsTerminated GaugeValue ''Hadoop:service=NameNode,name=JvmMetrics''
        ''ThreadsTerminated'' Numeric]"

text \<open>A row applies to the beans that carry its bean name.\<close>

definition applies :: "jmxBean \<Rightarrow> mapping_row \<Rightarrow> bool" where
  "applies b r = (index b ''name'' = JStr (row_bean r))"

text \<open>The recognized bean names, and the beans the translation has a case for.\<close>

definition recognizedNames :: "string list" where
  "recognizedNames =
     [''java.lang:type=Runtime'',
      ''Hadoop:service=NameNode,name=NameNodeStatus'',
      ''Hadoop:service=NameNode,name=FSNamesystem'',
      ''Hadoop:service=NameNode,name=FSNamesystemState'',
      ''Hadoop:service=NameNode,name=NameNodeInfo'',
      ''Hadoop:service=NameNode,name=JvmMetrics'']"

definition recognized :: "jmxBean \<Rightarrow> bool" where
  "recognized b = (index b ''name'' \<in> set (map JStr recognizedNames))"

fun is_number :: "json \<Rightarrow> bool" where
  "is_number (JNum f) = True"
| "is_number v = False"

fun is_string :: "json \<Rightarrow> bool" where
  "is_string (JStr s) = True"
| "is_string v = False"

fun number :: "json \<Rightarrow> real" where
  "number (JNum f) = f"
| "number v = 0"

text \<open>The value a rule gives to a source value; boolean results are 1 and 0.\<close>

definition coerce :: "coercion \<Rightarrow> json \<Rightarrow> real" where
  "coerce rule x =
     (case rule of
        Numeric \<Rightarrow> number x
      | EqualsString s \<Rightarrow> (if x = JStr s then 1 else 0)
      | NonEmptyString \<Rightarrow> (if x \<noteq> JStr [] then 1 else 0))"

text \<open>
  A coercion fault that stops the translation: a numeric row whose field is absent from
  the bean or holds something that is not a number.
\<close>

definition coercion_fault :: "jmxBean \<Rightarrow> mapping_row \<Rightarrow> bool" where
  "coercion_fault b r = (row_rule r = Numeric \<and> \<not> is_number (index b (row_field r)))"

definition row_send :: "Exporter \<Rightarrow> jmxBean \<Rightarrow> mapping_row \<Rightarrow> panic + Metric" where
  "row_send e b r =
     (if coercion_fault b r then Inl (TypeAssertionError (index b (row_field r)))
      else Inr (Metric (row_desc r e) (row_type r) (coerce (row_rule r) (index b (row_field r)))))"

text \<open>The sends the table prescribes for a bean: its rows, in table order.\<close>

definition table_sends :: "Exporter \<Rightarrow> jmxBean \<Rightarrow> (panic + Metric) list" where
  "table_sends e b = map (row_send e b) (filter (applies b) field_mapping)"

text \<open>
  A fully populated bean array: every recognized name is carried by exactly one bean, and
  every field the table maps holds a value of the type its rule expects (a number for a
  numeric row, a string for the two string rules). Beans with other names are free.
\<close>

definition well_typed :: "coercion \<Rightarrow> json \<Rightarrow> bool" where
  "well_typed rule x = (case rule of Numeric \<Rightarrow> is_number x | _ \<Rightarrow> is_string x)"

definition fully_populated :: "jmxBean list \<Rightarrow> bool" where
  "fully_populated beans =
     ((\<forall>n\<in>set recognizedNames. length (filter (\<lambda>b. index b ''name'' = JStr n) beans) = 1) \<and>
      (\<forall>b\<in>set beans. \<forall>r\<in>set field_mapping.
         applies b r \<longrightarrow> well_typed (row_rule r) (index b (row_field r))))"

text \<open>The bean of the array that carries a name (the first, should there be several).\<close>

definition theBean :: "jmxBean list \<Rightarrow> string \<Rightarrow> jmxBean" where
  "theBean beans n =
     (case find (\<lambda>b. index b ''name'' = JStr n) beans of None \<Rightarrow> Map.empty | Some b \<Rightarrow> b)"

text \<open>
  The full sample set: the reachability gauge with value 1, and one sample per row of the
  table, with the value of the row's field in the bean of the row's name.
\<close>

definition full_sample_set :: "Exporter \<Rightarrow> jmxBean list \<Rightarrow> Metric list" where
  "full_sample_set e beans =
     Metric (up e) GaugeValue 1 #
     map (\<lambda>r. Metric (row_desc r e) (row_type r)
                 (coerce (row_rule r) (index (theBean beans (row_bean r)) (row_field r))))
       field_mapping"

text \<open>
  When \<^verbatim>\<open>Decode\<close> returns an error, read off the document: nothing could be read, or the
  top-level value is neither an object nor \<^verbatim>\<open>null\<close>, or a \<^verbatim>\<open>beans\<close> member is neither an array
  nor \<^verbatim>\<open>null\<close>, or an element of such an array is neither an object nor \<^verbatim>\<open>null\<close>.
\<close>

fun bad_element :: "json \<Rightarrow> bool" where
  "bad_element (JObj members) = False"
| "bad_element JNull = False"
| "bad_element v = True"

fun bad_beans_value :: "json \<Rightarrow> bool" where
  "bad_beans_value (JArr vs) = list_ex bad_element vs"
| "bad_beans_value JNull = False"
| "bad_beans_value v = True"

fun decode_fails :: "json option \<Rightarrow> bool" where
  "decode_fails None = True"
| "decode_fails (Some JNull) = False"
| "decode_fails (Some (JObj members)) =
     list_ex (\<lambda>(key, v). isBeansKey key \<and> bad_beans_value v) members"
| "decode_fails (Some v) = True"

text \<open>
  A cycle that fails before the translation: the fetch returned an error, or a status
  other than 200, or \<^verbatim>\<open>Decode\<close> returns an error.
\<close>

fun cycle_fails :: "get_result \<Rightarrow> bool" where
  "cycle_fails GetError = True"
| "cycle_fails (GetResponse code body) = (code \<noteq> 200 \<or> decode_fails body)"

text \<open>
  The metric a row yields for a bean, the metrics of all rows that apply to a bean, and
  the beans that have a coercion fault in one of their rows.
\<close>

definition row_metric :: "Exporter \<Rightarrow> jmxBean \<Rightarrow> mapping_row \<Rightarrow> Metric" where
  "row_metric e b r =
     Metric (row_desc r e) (row_type r) (coerce (row_rule r) (index b (row_field r)))"

definition bean_metrics :: "Exporter \<Rightarrow> jmxBean \<Rightarrow> Metric list" where
  "bean_metrics e b = map (row_metric e b) (filter (applies b) field_mapping)"

definition faulty :: "jmxBean \<Rightarrow> bool" where
  "faulty b = list_ex (coercion_fault b) (filter (applies b) field_mapping)"

text \<open>
  The two conditions of a populated array taken alone: every recognized name is carried
  by some bean, and every field the table maps holds a value of the type its rule expects.
\<close>

definition names_present :: "jmxBean list \<Rightarrow> bool" where
  "names_present beans =
     list_all (\<lambda>n. list_ex (\<lambda>b. index b ''name'' = JStr n) beans) recognizedNames"

definition fields_populated :: "jmxBean list \<Rightarrow> bool" where
  "fields_populated beans =
     list_all (\<lambda>b. list_all (\<lambda>r. well_typed (row_rule r) (index b (row_field r)))
                      (filter (applies b) field_mapping)) beans"

section \<open>An example document\<close>

text \<open>
  A document with the six beans the exporter reads, every mapped field in place, among
  members and a bean it does not read, in an order of its own.
\<close>

definition full_beans :: "json list" where
  "full_beans =
     [JObj [(''name'', JStr ''Hadoop:service=NameNode,name=JvmMetrics''),
            (''modelerType'', JStr ''JvmMetrics''),
            (''MemNonHeapUsedM'', JNum 60), (''MemNonHeapCommittedM'', JNum 62),
            (''MemHeapUsedM'', JNum 211), (''MemHeapCommittedM'', JNum 981),
            (''ThreadsNew'', JNum 0), (''ThreadsRunnable'', JNum 7), (''ThreadsBlocked'', JNum 0),
            (''ThreadsWaiting'', JNum 8), (''ThreadsTimedWaiting'', JNum 42),
            (''ThreadsTerminated'', JNum 0),
            (''LogFatal'', JNum 0), (''LogError'', JNum 3), (''LogWarn'', JNum 17),
            (''LogInfo'', JNum 4021)],
      JObj [(''name'', JStr ''java.lang:type=Memory''), (''Verbose'', JBool False)],
      JObj [(''name'', JStr ''Hadoop:service=NameNode,name=NameNodeInfo''),
            (''Safemode'', JStr ''''), (''PercentUsed'', JNum 40), (''PercentRemaining'', JNum 55),
            (''NonDfsUsedSpace'', JNum 1024), (''BlockPoolUsedSpace'', JNum 8192),
            (''PercentBlockPoolUsed'', JNum 40)],
      JObj [(''name'', JStr ''java.lang:type=Runtime''), (''Uptime'', JNum 86400123)],
      JObj [(''name'', JStr ''Hadoop:service=NameNode,name=FSNamesystemState''),
            (''FSState'', JStr ''Operational''), (''NumLiveDataNodes'', JNum 3),
            (''NumDeadDataNodes'', JNum 1), (''FilesTotal'', JNum 1200),
            (''CapacityTotal'', JNum 20480), (''CapacityUsed'', JNum 8192),
            (''CapacityRemaining'', JNum 11264)],
      JObj [(''name'', JStr ''Hadoop:service=NameNode,name=NameNodeStatus''),
            (''State'', JStr ''active'')],
      JObj [(''name'', JStr ''Hadoop:service=NameNode,name=FSNamesystem''),
            (''BlocksTotal'', JNum 900), (''UnderReplicatedBlocks'', JNum 2),
            (''PendingReplicationBlocks'', JNum 0), (''ScheduledReplicationBlocks'', JNum 0),
            (''PostponedMisreplicatedBlocks'', JNum 0), (''PendingDeletionBlocks'', JNum 5),
            (''MissingBlocks'', JNum 0), (''CorruptBlocks'', JNum 1), (''ExcessBlocks'', JNum 0)]]"

definition full_document :: json where
  "full_document = JObj [(''beans'', JArr full_beans)]"

text \<open>The same document with a second Runtime bean at the end of the array.\<close>

definition doubled_document :: json where
  "doubled_document =
     JObj [(''beans'', JArr (full_beans @
       [JObj [(''name'', JStr ''java.lang:type=Runtime''), (''Uptime'', JNum 5)]]))]"

section \<open>Runs of the sends and of the loop\<close>

lemma sends_eq: "sends xs ch = \<lparr>sent = ch @ delivered xs, panicked = first_panic xs\<rparr>"
  by (induction xs ch rule: sends.induct) simp_all

lemma first_panic_None_iff: "first_panic xs = None \<longleftrightarrow> (\<forall>x\<in>set xs. \<not> isl x)"
  by (induction xs rule: first_panic.induct) simp_all

lemma delivered_subset: "m \<in> set (delivered xs) \<Longrightarrow> Inr m \<in> set xs"
  by (induction xs rule: delivered.induct) auto

lemma delivered_all: "\<forall>x\<in>set xs. \<not> isl x \<Longrightarrow> delivered xs = map projr xs"
  by (induction xs rule: delivered.induct) simp_all

lemma range_Beans_append:
  "range_Beans e (pre @ post) ch =
     (let r = range_Beans e pre ch
      in case panicked r of None \<Rightarrow> range_Beans e post (sent r) | Some p \<Rightarrow> r)"
  by (induction pre arbitrary: ch) (simp_all add: Let_def split: option.splits)

lemma range_Beans_ok:
  "\<forall>b\<in>set beans. first_panic (switch_name e b) = None \<Longrightarrow>
   range_Beans e beans ch =
     \<lparr>sent = ch @ concat (map (\<lambda>b. delivered (switch_name e b)) beans), panicked = None\<rparr>"
  by (induction beans arbitrary: ch) (simp_all add: sends_eq)

lemma range_Beans_panicked:
  "(panicked (range_Beans e beans ch) = None) =
   (\<forall>b\<in>set beans. first_panic (switch_name e b) = None)"
  by (induction beans arbitrary: ch) (auto simp add: sends_eq Let_def split: option.splits)

lemma range_Beans_prefix:
  "\<exists>fields. sent (range_Beans e beans ch) = ch @ fields \<and>
     prefix fields (concat (map (\<lambda>b. delivered (switch_name e b)) beans))"
proof (induction beans arbitrary: ch)
  case Nil
  show ?case by simp
next
  case (Cons b beans)
  show ?case
  proof (cases "first_panic (switch_name e b)")
    case None
    from Cons.IH [of "ch @ delivered (switch_name e b)"]
    obtain fields where
      f: "sent (range_Beans e beans (ch @ delivered (switch_name e b))) =
            (ch @ delivered (switch_name e b)) @ fields"
         "prefix fields (concat (map (\<lambda>b. delivered (switch_name e b)) beans))"
      by blast
    show ?thesis
      by (rule exI [of _ "delivered (switch_name e b) @ fields"]) (simp add: sends_eq None f)
  next
    case (Some p)
    show ?thesis
      by (rule exI [of _ "delivered (switch_name e b)"]) (simp add: sends_eq Some)
  qed
qed

lemma range_Beans_extends: "\<exists>fields. sent (range_Beans e beans ch) = ch @ fields"
  using range_Beans_prefix [of e beans ch] by blast

lemma Collect_ok:
  "Decode body = Inr envelope \<Longrightarrow>
   Collect e (GetResponse 200 body) =
     range_Beans e (Beans envelope) [MustNewConstMetric (up e) GaugeValue 1]"
  by (simp add: Collect_def StatusOK_def)

text \<open>The run up to a bean of the array that is reached, and the run from there.\<close>

lemma Collect_reach:
  assumes "Decode body = Inr envelope"
    and "Beans envelope = pre @ b # post"
    and "panicked (range_Beans e pre [MustNewConstMetric (up e) GaugeValue 1]) = None"
  shows "Collect e (GetResponse 200 body) =
     (let r = sends (switch_name e b)
                (sent (range_Beans e pre [MustNewConstMetric (up e) GaugeValue 1]))
      in case panicked r of None \<Rightarrow> range_Beans e post (sent r) | Some p \<Rightarrow> r)"
  using assms by (simp add: Collect_ok range_Beans_append Let_def)

text \<open>Unfolding sets for the evaluation of a run on a concrete document.\<close>

lemmas run_defs =
  Collect_def StatusOK_def Decode_def isBeansKey_def foldByte_def index_def switch_name_def
  constMetric_def boolMetric_def float64_def MustNewConstMetric_def mustNewConstBoolMetric_def

lemmas exporter_defs = NewExporter_def NewDesc_def BuildFQName_def namespace_def

section \<open>The switch implements the table\<close>

lemma constMetric_row:
  "constMetric (sel e) vt (index b k) = row_send e b (Row sel vt n k Numeric)"
  by (cases "index b k")
     (simp_all add: constMetric_def row_send_def coercion_fault_def coerce_def float64_def
        MustNewConstMetric_def)

lemma boolMetric_eq_row:
  "boolMetric (sel e) vt (index b k = JStr s) = row_send e b (Row sel vt n k (EqualsString s))"
  by (simp add: boolMetric_def row_send_def coercion_fault_def coerce_def
        mustNewConstBoolMetric_def MustNewConstMetric_def)

lemma boolMetric_nonempty_row:
  "boolMetric (sel e) vt (index b k \<noteq> JStr []) = row_send e b (Row sel vt n k NonEmptyString)"
  by (simp add: boolMetric_def row_send_def coercion_fault_def coerce_def
        mustNewConstBoolMetric_def MustNewConstMetric_def)

text \<open>
  For every bean, the sends of the matching case of the switch are the sends of the rows
  of the table that apply to the bean, in table order.
\<close>

lemma switch_name_table: "switch_name e b = table_sends e b"
  unfolding switch_name_def table_sends_def field_mapping_def
  by (simp add: applies_def constMetric_row [symmetric] boolMetric_eq_row [symmetric]
      boolMetric_nonempty_row [symmetric])

lemma applies_recognized: "r \<in> set field_mapping \<Longrightarrow> applies b r \<Longrightarrow> recognized b"
  unfolding field_mapping_def applies_def recognized_def recognizedNames_def by auto

lemma unrecognized_no_rows: "\<not> recognized b \<Longrightarrow> filter (applies b) field_mapping = []"
  by (auto simp add: filter_empty_conv dest: applies_recognized)

lemma switch_name_unrecognized: "\<not> recognized b \<Longrightarrow> switch_name e b = []"
  by (simp add: switch_name_table table_sends_def unrecognized_no_rows)

lemma row_desc_described: "r \<in> set field_mapping \<Longrightarrow> row_desc r e \<in> set (Describe e)"
  unfolding field_mapping_def Describe_def by auto

lemma table_sends_desc: "Inr m \<in> set (table_sends e b) \<Longrightarrow> desc m \<in> set (Describe e)"
  by (auto simp add: table_sends_def row_send_def row_desc_described split: if_splits)

section \<open>What the decoder accepts\<close>

lemma decodeBean_err: "snd (decodeBean old v) = bad_element v"
  by (cases v) simp_all

lemma decodeElems_err: "snd (decodeElems backing vs) = list_ex bad_element vs"
  by (induction vs arbitrary: backing) (simp_all add: decodeBean_err split_beta Let_def)

lemma decodeSlice_err: "snd (decodeSlice slice v) = bad_beans_value v"
  by (cases slice; cases v) (simp_all add: decodeElems_err split_beta Let_def)

lemma decodeMembers_err:
  "snd (decodeMembers members (slice, err)) =
     (err \<or> list_ex (\<lambda>(key, v). isBeansKey key \<and> bad_beans_value v) members)"
proof (induction members arbitrary: slice err)
  case Nil
  show ?case by simp
next
  case (Cons m members)
  obtain key v where m: "m = (key, v)"
    by (cases m)
  show ?case
  proof (cases "isBeansKey key")
    case True
    obtain slice' err' where d: "decodeSlice slice v = (slice', err')"
      by (cases "decodeSlice slice v")
    with decodeSlice_err [of slice v] have "err' = bad_beans_value v"
      by simp
    with True d show ?thesis
      by (simp add: m Cons.IH)
  next
    case False
    then show ?thesis
      by (simp add: m Cons.IH)
  qed
qed

lemma decodeMembers_no_beans:
  "\<not> list_ex (\<lambda>(key, v). isBeansKey key) members \<Longrightarrow> decodeMembers members acc = acc"
  by (induction members arbitrary: acc) (auto simp add: split_beta)

lemma Decode_fails: "isl (Decode body) = decode_fails body"
proof (cases body)
  case None
  then show ?thesis by (simp add: Decode_def)
next
  case (Some v)
  show ?thesis
  proof (cases v)
    case (JObj members)
    have "snd (decodeMembers members (([], 0), False)) =
            list_ex (\<lambda>(key, v). isBeansKey key \<and> bad_beans_value v) members"
      by (simp add: decodeMembers_err)
    then show ?thesis
      by (simp add: Some JObj Decode_def split_beta Let_def)
  qed (simp_all add: Some Decode_def)
qed

lemma Decode_no_beans:
  "\<not> list_ex (\<lambda>(key, v). isBeansKey key) members \<Longrightarrow>
   Decode (Some (JObj members)) = Inr \<lparr>Beans = []\<rparr>"
  by (simp add: Decode_def decodeMembers_no_beans)

lemma Decode_fails_Inl: "decode_fails body \<Longrightarrow> \<exists>err. Decode body = Inl err"
  using Decode_fails [of body] by (cases "Decode body") simp_all

lemma Decode_succeeds_Inr: "\<not> decode_fails body \<Longrightarrow> \<exists>envelope. Decode body = Inr envelope"
  using Decode_fails [of body] by (cases "Decode body") simp_all

section \<open>The cases of single beans\<close>

lemma rows_Runtime:
  "index b ''name'' = JStr ''java.lang:type=Runtime'' \<Longrightarrow>
   filter (applies b) field_mapping =
     [Row uptime GaugeValue ''java.lang:type=Runtime'' ''Uptime'' Numeric]"
  by (simp add: field_mapping_def applies_def)

lemma rows_NameNodeStatus:
  "index b ''name'' = JStr ''Hadoop:service=NameNode,name=NameNodeStatus'' \<Longrightarrow>
   filter (applies b) field_mapping =
     [Row state GaugeValue ''Hadoop:service=NameNode,name=NameNodeStatus'' ''State''
        (EqualsString ''active'')]"
  by (simp add: field_mapping_def applies_def)

lemma rows_NameNodeInfo:
  "index b ''name'' = JStr ''Hadoop:service=NameNode,name=NameNodeInfo'' \<Longrightarrow>
   \<exists>rows. filter (applies b) field_mapping =
     Row safemodeOn GaugeValue ''Hadoop:service=NameNode,name=NameNodeInfo'' ''Safemode''
        NonEmptyString # rows"
  by (simp add: field_mapping_def applies_def)

lemma sends_Runtime:
  assumes "index b ''name'' = JStr ''java.lang:type=Runtime''" and "index b ''Uptime'' = JNum f"
  shows "sends (switch_name e b) ch =
           \<lparr>sent = ch @ [Metric (uptime e) GaugeValue f], panicked = None\<rparr>"
  using assms
  by (simp add: switch_name_table table_sends_def rows_Runtime row_send_def coercion_fault_def
      coerce_def)

lemma sends_NameNodeStatus:
  assumes "index b ''name'' = JStr ''Hadoop:service=NameNode,name=NameNodeStatus''"
    and "index b ''State'' = JStr s"
  shows "sends (switch_name e b) ch =
           \<lparr>sent = ch @ [Metric (state e) GaugeValue (if s = ''active'' then 1 else 0)],
            panicked = None\<rparr>"
  using assms
  by (simp add: switch_name_table table_sends_def rows_NameNodeStatus row_send_def
      coercion_fault_def coerce_def)

lemma sends_NameNodeInfo:
  assumes "index b ''name'' = JStr ''Hadoop:service=NameNode,name=NameNodeInfo''"
  shows "\<exists>later. sent (sends (switch_name e b) ch) =
           ch @ Metric (safemodeOn e) GaugeValue (if index b ''Safemode'' = JStr [] then 0 else 1)
                # later"
proof -
  from rows_NameNodeInfo [OF assms] obtain rows where
    "filter (applies b) field_mapping =
       Row safemodeOn GaugeValue ''Hadoop:service=NameNode,name=NameNodeInfo'' ''Safemode''
         NonEmptyString # rows"
    by blast
  then show ?thesis
    by (simp add: switch_name_table table_sends_def row_send_def coercion_fault_def coerce_def
        sends_eq)
qed

lemma Collect_reach_sent:
  assumes "Decode body = Inr envelope"
    and "Beans envelope = pre @ b # post"
    and "panicked (range_Beans e pre [Metric (up e) GaugeValue 1]) = None"
  shows "\<exists>later. sent (Collect e (GetResponse 200 body)) =
           sent (sends (switch_name e b) (sent (range_Beans e pre [Metric (up e) GaugeValue 1])))
           @ later"
proof (cases "first_panic (switch_name e b)")
  case None
  obtain fields where
    "sent (range_Beans e post
        (sent (range_Beans e pre [Metric (up e) GaugeValue 1]) @ delivered (switch_name e b))) =
     (sent (range_Beans e pre [Metric (up e) GaugeValue 1]) @ delivered (switch_name e b)) @ fields"
    using range_Beans_extends by blast
  with None assms show ?thesis
    by (simp add: Collect_reach MustNewConstMetric_def sends_eq)
next
  case (Some p)
  with assms show ?thesis
    by (simp add: Collect_reach MustNewConstMetric_def sends_eq)
qed

section \<open>Failed cycles\<close>

text \<open>
  Claim C2, as the code has it. A cycle fails before the translation when the fetch
  returns an error, when the status is not 200, or when \<^verbatim>\<open>Decode\<close> returns an error; then
  the reachability gauge with value 0 is the only metric sent, and \<open>Collect\<close> returns.
  Every other cycle sends the gauge with value 1 first. \<^verbatim>\<open>Decode\<close> returns an error for a
  body that is no JSON, and for a value of the wrong JSON type at the top level, under
  \<^verbatim>\<open>beans\<close> or inside the array (\<open>decode_fails\<close>). An object without any \<^verbatim>\<open>beans\<close> member is
  not an error: the decoder leaves \<open>Beans\<close> empty, and the cycle sends the gauge with
  value 1 and nothing else.
\<close>

theorem Collect_failed_cycle:
  "(cycle_fails got \<longrightarrow>
      Collect e got = \<lparr>sent = [Metric (up e) GaugeValue 0], panicked = None\<rparr>) \<and>
   (\<not> cycle_fails got \<longrightarrow>
      (\<exists>fields. sent (Collect e got) = Metric (up e) GaugeValue 1 # fields)) \<and>
   (\<not> list_ex (\<lambda>(key, v). isBeansKey key) members \<longrightarrow>
      Collect e (GetResponse 200 (Some (JObj members))) =
        \<lparr>sent = [Metric (up e) GaugeValue 1], panicked = None\<rparr>)"
proof (intro conjI impI)
  assume "cycle_fails got"
  then show "Collect e got = \<lparr>sent = [Metric (up e) GaugeValue 0], panicked = None\<rparr>"
  proof (cases got)
    case GetError
    then show ?thesis
      by (simp add: Collect_def MustNewConstMetric_def)
  next
    case (GetResponse code body)
    show ?thesis
    proof (cases "code = 200")
      case True
      with \<open>cycle_fails got\<close> GetResponse obtain err where "Decode body = Inl err"
        using Decode_fails_Inl by auto
      with True show ?thesis
        by (simp add: GetResponse Collect_def StatusOK_def MustNewConstMetric_def)
    next
      case False
      then show ?thesis
        by (simp add: GetResponse Collect_def StatusOK_def MustNewConstMetric_def)
    qed
  qed
next
  assume "\<not> cycle_fails got"
  then obtain body envelope where
    got: "got = GetResponse 200 body" and dec: "Decode body = Inr envelope"
    using Decode_succeeds_Inr by (cases got) auto
  show "\<exists>fields. sent (Collect e got) = Metric (up e) GaugeValue 1 # fields"
    using range_Beans_extends [of e "Beans envelope" "[Metric (up e) GaugeValue 1]"]
    by (simp add: got Collect_ok [OF dec] MustNewConstMetric_def)
next
  assume "\<not> list_ex (\<lambda>(key, v). isBeansKey key) members"
  then show "Collect e (GetResponse 200 (Some (JObj members))) =
      \<lparr>sent = [Metric (up e) GaugeValue 1], panicked = None\<rparr>"
    by (simp add: Collect_ok [OF Decode_no_beans] MustNewConstMetric_def)
qed

text \<open>
  The claim as stated counts a missing top-level \<^verbatim>\<open>beans\<close> array as a decode failure with
  the gauge at 0. On the document \<^verbatim>\<open>{}\<close>, served with status 200, the gauge is 1.
\<close>

theorem Collect_missing_beans_up_1:
  "Collect (NewExporter []) (GetResponse 200 (Some (JObj []))) =
     \<lparr>sent = [Metric (up (NewExporter [])) GaugeValue 1], panicked = None\<rparr> \<and>
   sent (Collect (NewExporter []) (GetResponse 200 (Some (JObj [])))) \<noteq>
     [Metric (up (NewExporter [])) GaugeValue 0]"
  by (simp add: run_defs)

text \<open>
  A status 503, an array element that is a number, an empty bean array, and an object
  whose only member is named \<^verbatim>\<open>bean\<close>.
\<close>

theorem Collect_failed_cycle_witness:
  "cycle_fails (GetResponse 503 (Some (JObj []))) \<and>
   Collect (NewExporter []) (GetResponse 503 (Some (JObj []))) =
     \<lparr>sent = [Metric (up (NewExporter [])) GaugeValue 0], panicked = None\<rparr> \<and>
   cycle_fails (GetResponse 200 (Some (JObj [(''beans'', JArr [JNum 1])]))) \<and>
   Collect (NewExporter []) (GetResponse 200 (Some (JObj [(''beans'', JArr [JNum 1])]))) =
     \<lparr>sent = [Metric (up (NewExporter [])) GaugeValue 0], panicked = None\<rparr> \<and>
   \<not> cycle_fails (GetResponse 200 (Some (JObj [(''beans'', JArr [])]))) \<and>
   (\<exists>fields. sent (Collect (NewExporter []) (GetResponse 200 (Some (JObj [(''beans'', JArr [])])))) =
      Metric (up (NewExporter [])) GaugeValue 1 # fields) \<and>
   \<not> list_ex (\<lambda>(key, v). isBeansKey key) [(''bean'', JArr [])] \<and>
   Collect (NewExporter []) (GetResponse 200 (Some (JObj [(''bean'', JArr [])]))) =
     \<lparr>sent = [Metric (up (NewExporter [])) GaugeValue 1], panicked = None\<rparr>"
proof -
  have a: "cycle_fails (GetResponse 503 (Some (JObj [])))"
    by simp
  have b: "cycle_fails (GetResponse 200 (Some (JObj [(''beans'', JArr [JNum 1])])))"
    by (simp add: isBeansKey_def foldByte_def)
  have c: "\<not> cycle_fails (GetResponse 200 (Some (JObj [(''beans'', JArr [])])))"
    by (simp add: isBeansKey_def foldByte_def)
  have d: "\<not> list_ex (\<lambda>(key, v). isBeansKey key) [(''bean'', JArr [])]"
    by (simp add: isBeansKey_def foldByte_def)
  from a b c d show ?thesis
    using Collect_failed_cycle [of "GetResponse 503 (Some (JObj []))" "NewExporter []" "[]"]
      Collect_failed_cycle [of "GetResponse 200 (Some (JObj [(''beans'', JArr [JNum 1])]))"
        "NewExporter []" "[]"]
      Collect_failed_cycle [of "GetResponse 200 (Some (JObj [(''beans'', JArr [])]))"
        "NewExporter []" "[(''bean'', JArr [])]"]
    by blast
qed

section \<open>Coercion faults\<close>

lemma row_send_isl: "isl (row_send e b r) = coercion_fault b r"
  by (simp add: row_send_def)

lemma first_panic_table:
  "(first_panic (switch_name e b) = None) =
   (\<forall>r\<in>set field_mapping. applies b r \<longrightarrow> \<not> coercion_fault b r)"
  by (auto simp add: first_panic_None_iff switch_name_table table_sends_def row_send_isl)

lemma delivered_upto_fault:
  "\<forall>x\<in>set xs. \<not> isl x \<Longrightarrow> delivered (xs @ Inl p # ys) = map projr xs"
  by (induction xs rule: delivered.induct) simp_all

lemma first_panic_upto_fault:
  "\<forall>x\<in>set xs. \<not> isl x \<Longrightarrow> first_panic (xs @ Inl p # ys) = Some p"
  by (induction xs rule: first_panic.induct) simp_all

lemma row_send_ok: "\<not> coercion_fault b r \<Longrightarrow> row_send e b r = Inr (row_metric e b r)"
  by (simp add: row_send_def row_metric_def)

lemma row_send_fault:
  "coercion_fault b r \<Longrightarrow> row_send e b r = Inl (TypeAssertionError (index b (row_field r)))"
  by (simp add: row_send_def)

lemma sends_sound_bean:
  assumes "\<not> faulty b"
  shows "sends (switch_name e b) ch = \<lparr>sent = ch @ bean_metrics e b, panicked = None\<rparr>"
proof -
  from assms have ok: "\<forall>r\<in>set (filter (applies b) field_mapping). \<not> coercion_fault b r"
    by (simp add: faulty_def list_ex_iff)
  then have "\<forall>x\<in>set (switch_name e b). \<not> isl x"
    by (auto simp add: switch_name_table table_sends_def row_send_isl)
  then have "first_panic (switch_name e b) = None"
    and "delivered (switch_name e b) = map projr (switch_name e b)"
    by (simp_all add: first_panic_None_iff delivered_all)
  moreover have "map projr (switch_name e b) = bean_metrics e b"
    using ok by (simp add: switch_name_table table_sends_def bean_metrics_def row_send_ok)
  ultimately show ?thesis
    by (simp add: sends_eq)
qed

lemma sends_first_fault:
  assumes "filter (applies b) field_mapping = ok @ r # rest"
    and "\<forall>r'\<in>set ok. \<not> coercion_fault b r'"
    and "coercion_fault b r"
  shows "sends (switch_name e b) ch =
           \<lparr>sent = ch @ map (row_metric e b) ok,
            panicked = Some (TypeAssertionError (index b (row_field r)))\<rparr>"
proof -
  have sw: "switch_name e b =
      map (row_send e b) ok @ Inl (TypeAssertionError (index b (row_field r))) #
      map (row_send e b) rest"
    using assms(1,3) by (simp add: switch_name_table table_sends_def row_send_fault)
  have good: "\<forall>x\<in>set (map (row_send e b) ok). \<not> isl x"
    using assms(2) by (simp add: row_send_isl)
  have "map projr (map (row_send e b) ok) = map (row_metric e b) ok"
    using assms(2) by (simp add: row_send_ok)
  with good show ?thesis
    by (simp add: sends_eq sw delivered_upto_fault first_panic_upto_fault)
qed

lemma range_Beans_sound:
  "\<forall>b\<in>set beans. \<not> faulty b \<Longrightarrow>
   range_Beans e beans ch =
     \<lparr>sent = ch @ concat (map (bean_metrics e) beans), panicked = None\<rparr>"
  by (induction beans arbitrary: ch) (simp_all add: sends_sound_bean)

lemma range_Beans_first_fault:
  assumes "\<forall>b'\<in>set pre. \<not> faulty b'"
    and "filter (applies b) field_mapping = ok @ r # rest"
    and "\<forall>r'\<in>set ok. \<not> coercion_fault b r'"
    and "coercion_fault b r"
  shows "range_Beans e (pre @ b # post) ch =
           \<lparr>sent = ch @ concat (map (bean_metrics e) pre) @ map (row_metric e b) ok,
            panicked = Some (TypeAssertionError (index b (row_field r)))\<rparr>"
  by (simp add: range_Beans_append range_Beans_sound [OF assms(1)]
      sends_first_fault [OF assms(2-4)])

lemma first_fault_exists:
  assumes "\<exists>b\<in>set beans. faulty b"
  shows "\<exists>pre b post ok r rest.
           beans = pre @ b # post \<and> (\<forall>b'\<in>set pre. \<not> faulty b') \<and>
           filter (applies b) field_mapping = ok @ r # rest \<and>
           (\<forall>r'\<in>set ok. \<not> coercion_fault b r') \<and> coercion_fault b r"
proof -
  from split_list_first_prop [OF assms] obtain pre b post where
    b: "beans = pre @ b # post" "faulty b" "\<forall>b'\<in>set pre. \<not> faulty b'"
    by blast
  from b(2) have "\<exists>r\<in>set (filter (applies b) field_mapping). coercion_fault b r"
    by (simp add: faulty_def list_ex_iff)
  from split_list_first_prop [OF this] obtain ok r rest where
    "filter (applies b) field_mapping = ok @ r # rest" "coercion_fault b r"
    "\<forall>r'\<in>set ok. \<not> coercion_fault b r'"
    by blast
  with b show ?thesis
    by blast
qed

text \<open>
  Claim C3, as the code has it. The numeric fields are read with an unchecked type
  assertion, and \<open>Collect\<close> has no recover. A run that reaches the translation ends in a
  panic exactly when some bean of the array has a numeric row of the table whose field is
  absent or is not a number. Without such a bean the run returns, with the metrics of
  every bean sent. With one, the run ends at the first faulty row of the first faulty
  bean: the reachability gauge with value 1, the metrics of the beans before that bean
  and those of the rows before that row have been sent and stay sent, nothing is sent
  after them, and the panic carries the value found in the field. Such a first fault
  exists whenever a bean is faulty. A string-ruled field (\<^verbatim>\<open>State\<close>, \<^verbatim>\<open>FSState\<close>,
  \<^verbatim>\<open>Safemode\<close>) that is absent or of another type is no fault: its comparison yields a
  boolean.
\<close>

theorem Collect_panics_iff_numeric_fault:
  assumes "Decode body = Inr envelope"
  shows "((panicked (Collect e (GetResponse 200 body)) \<noteq> None) =
            (\<exists>b\<in>set (Beans envelope). faulty b)) \<and>
         ((\<forall>b\<in>set (Beans envelope). \<not> faulty b) \<longrightarrow>
            Collect e (GetResponse 200 body) =
              \<lparr>sent = Metric (up e) GaugeValue 1 # concat (map (bean_metrics e) (Beans envelope)),
               panicked = None\<rparr>) \<and>
         (\<forall>pre b post ok r rest.
            Beans envelope = pre @ b # post \<and> (\<forall>b'\<in>set pre. \<not> faulty b') \<and>
            filter (applies b) field_mapping = ok @ r # rest \<and>
            (\<forall>r'\<in>set ok. \<not> coercion_fault b r') \<and> coercion_fault b r \<longrightarrow>
            Collect e (GetResponse 200 body) =
              \<lparr>sent = Metric (up e) GaugeValue 1 #
                      concat (map (bean_metrics e) pre) @ map (row_metric e b) ok,
               panicked = Some (TypeAssertionError (index b (row_field r)))\<rparr>) \<and>
         ((\<exists>b\<in>set (Beans envelope). faulty b) \<longrightarrow>
            (\<exists>pre b post ok r rest.
               Beans envelope = pre @ b # post \<and> (\<forall>b'\<in>set pre. \<not> faulty b') \<and>
               filter (applies b) field_mapping = ok @ r # rest \<and>
               (\<forall>r'\<in>set ok. \<not> coercion_fault b r') \<and> coercion_fault b r))"
proof (intro conjI impI allI)
  have "(first_panic (switch_name e b) = None) = (\<not> faulty b)" for b
    by (auto simp add: first_panic_table faulty_def list_ex_iff)
  then show "(panicked (Collect e (GetResponse 200 body)) \<noteq> None) =
      (\<exists>b\<in>set (Beans envelope). faulty b)"
    by (simp add: Collect_ok [OF assms] range_Beans_panicked)
next
  assume "\<forall>b\<in>set (Beans envelope). \<not> faulty b"
  from range_Beans_sound [OF this, of e "[Metric (up e) GaugeValue 1]"]
  show "Collect e (GetResponse 200 body) =
      \<lparr>sent = Metric (up e) GaugeValue 1 # concat (map (bean_metrics e) (Beans envelope)),
       panicked = None\<rparr>"
    by (simp add: Collect_ok [OF assms] MustNewConstMetric_def)
next
  fix pre b post ok r rest
  assume a: "Beans envelope = pre @ b # post \<and> (\<forall>b'\<in>set pre. \<not> faulty b') \<and>
      filter (applies b) field_mapping = ok @ r # rest \<and>
      (\<forall>r'\<in>set ok. \<not> coercion_fault b r') \<and> coercion_fault b r"
  then have "range_Beans e (pre @ b # post) [Metric (up e) GaugeValue 1] =
      \<lparr>sent = [Metric (up e) GaugeValue 1] @ concat (map (bean_metrics e) pre) @
              map (row_metric e b) ok,
       panicked = Some (TypeAssertionError (index b (row_field r)))\<rparr>"
    by (intro range_Beans_first_fault) simp_all
  with a show "Collect e (GetResponse 200 body) =
      \<lparr>sent = Metric (up e) GaugeValue 1 #
              concat (map (bean_metrics e) pre) @ map (row_metric e b) ok,
       panicked = Some (TypeAssertionError (index b (row_field r)))\<rparr>"
    by (simp add: Collect_ok [OF assms] MustNewConstMetric_def)
next
  assume "\<exists>b\<in>set (Beans envelope). faulty b"
  then show "\<exists>pre b post ok r rest.
      Beans envelope = pre @ b # post \<and> (\<forall>b'\<in>set pre. \<not> faulty b') \<and>
      filter (applies b) field_mapping = ok @ r # rest \<and>
      (\<forall>r'\<in>set ok. \<not> coercion_fault b r') \<and> coercion_fault b r"
    by (rule first_fault_exists)
qed

text \<open>
  The claim as stated says that a missing or mistyped field never aborts. A Runtime bean
  without \<^verbatim>\<open>Uptime\<close>, and one whose \<^verbatim>\<open>Uptime\<close> is a string, end the run in a panic.
\<close>

theorem Collect_missing_Uptime_panics:
  "Collect (NewExporter []) (GetResponse 200 (Some (JObj [(''beans'', JArr
      [JObj [(''name'', JStr ''java.lang:type=Runtime'')]])]))) =
     \<lparr>sent = [Metric (up (NewExporter [])) GaugeValue 1],
      panicked = Some (TypeAssertionError JNull)\<rparr> \<and>
   Collect (NewExporter []) (GetResponse 200 (Some (JObj [(''beans'', JArr
      [JObj [(''name'', JStr ''java.lang:type=Runtime''), (''Uptime'', JStr ''12'')]])]))) =
     \<lparr>sent = [Metric (up (NewExporter [])) GaugeValue 1],
      panicked = Some (TypeAssertionError (JStr ''12''))\<rparr>"
  by (simp add: run_defs)

text \<open>
  A Status bean without \<^verbatim>\<open>State\<close> passes with the state gauge at 0; the NameNodeInfo bean
  after it has \<^verbatim>\<open>Safemode\<close> and \<^verbatim>\<open>PercentUsed\<close> but no \<^verbatim>\<open>PercentRemaining\<close>, and the run
  ends there: the later \<^verbatim>\<open>NonDfsUsedSpace\<close> and the Runtime bean are never read.
\<close>

theorem Collect_panics_iff_numeric_fault_witness:
  "Collect (NewExporter []) (GetResponse 200 (Some (JObj [(''beans'', JArr
      [JObj [(''name'', JStr ''Hadoop:service=NameNode,name=NameNodeStatus'')],
       JObj [(''name'', JStr ''Hadoop:service=NameNode,name=NameNodeInfo''),
             (''Safemode'', JStr ''''), (''PercentUsed'', JNum 40),
             (''NonDfsUsedSpace'', JNum 1024)],
       JObj [(''name'', JStr ''java.lang:type=Runtime''), (''Uptime'', JNum 5)]])]))) =
     \<lparr>sent = [Metric (up (NewExporter [])) GaugeValue 1,
              Metric (state (NewExporter [])) GaugeValue 0,
              Metric (safemodeOn (NewExporter [])) GaugeValue 0,
              Metric (dfsPercentUsed (NewExporter [])) GaugeValue 40],
      panicked = Some (TypeAssertionError JNull)\<rparr>"
proof -
  let ?status = "[''name'' \<mapsto> JStr ''Hadoop:service=NameNode,name=NameNodeStatus'']"
  let ?info = "[''name'' \<mapsto> JStr ''Hadoop:service=NameNode,name=NameNodeInfo'',
                ''Safemode'' \<mapsto> JStr '''', ''PercentUsed'' \<mapsto> JNum 40,
                ''NonDfsUsedSpace'' \<mapsto> JNum 1024]"
  let ?runtime = "[''name'' \<mapsto> JStr ''java.lang:type=Runtime'', ''Uptime'' \<mapsto> JNum 5]"
  let ?envelope = "\<lparr>Beans = [?status, ?info, ?runtime]\<rparr>"
  let ?ok = "[Row safemodeOn GaugeValue ''Hadoop:service=NameNode,name=NameNodeInfo''
                ''Safemode'' NonEmptyString,
              Row dfsPercentUsed GaugeValue ''Hadoop:service=NameNode,name=NameNodeInfo''
                ''PercentUsed'' Numeric]"
  let ?r = "Row dfsPercentRemaining GaugeValue ''Hadoop:service=NameNode,name=NameNodeInfo''
              ''PercentRemaining'' Numeric"
  let ?rest = "[Row dfsNonDfsBytesUsed GaugeValue ''Hadoop:service=NameNode,name=NameNodeInfo''
                  ''NonDfsUsedSpace'' Numeric,
                Row dfsBlockPoolBytesUsed GaugeValue ''Hadoop:service=NameNode,name=NameNodeInfo''
                  ''BlockPoolUsedSpace'' Numeric,
                Row dfsBlockPoolPercentUsed GaugeValue
                  ''Hadoop:service=NameNode,name=NameNodeInfo'' ''PercentBlockPoolUsed'' Numeric]"
  have dec: "Decode (Some (JObj [(''beans'', JArr
      [JObj [(''name'', JStr ''Hadoop:service=NameNode,name=NameNodeStatus'')],
       JObj [(''name'', JStr ''Hadoop:service=NameNode,name=NameNodeInfo''),
             (''Safemode'', JStr ''''), (''PercentUsed'', JNum 40),
             (''NonDfsUsedSpace'', JNum 1024)],
       JObj [(''name'', JStr ''java.lang:type=Runtime''), (''Uptime'', JNum 5)]])])) =
     Inr ?envelope"
    by (simp add: Decode_def isBeansKey_def foldByte_def)
  have split: "Beans ?envelope = [?status] @ ?info # [?runtime]"
    by simp
  have pre: "\<forall>b'\<in>set [?status]. \<not> faulty b'"
    by (simp add: faulty_def field_mapping_def applies_def index_def coercion_fault_def)
  have rows: "filter (applies ?info) field_mapping = ?ok @ ?r # ?rest"
    by (simp add: field_mapping_def applies_def index_def)
  have ok: "\<forall>r'\<in>set ?ok. \<not> coercion_fault ?info r'"
    by (simp add: coercion_fault_def index_def)
  have fault: "coercion_fault ?info ?r"
    by (simp add: coercion_fault_def index_def)
  from Collect_panics_iff_numeric_fault [OF dec, of "NewExporter []"]
  have "Beans ?envelope = [?status] @ ?info # [?runtime] \<and> (\<forall>b'\<in>set [?status]. \<not> faulty b') \<and>
        filter (applies ?info) field_mapping = ?ok @ ?r # ?rest \<and>
        (\<forall>r'\<in>set ?ok. \<not> coercion_fault ?info r') \<and> coercion_fault ?info ?r \<longrightarrow>
        Collect (NewExporter []) (GetResponse 200 (Some (JObj [(''beans'', JArr
          [JObj [(''name'', JStr ''Hadoop:service=NameNode,name=NameNodeStatus'')],
           JObj [(''name'', JStr ''Hadoop:service=NameNode,name=NameNodeInfo''),
                 (''Safemode'', JStr ''''), (''PercentUsed'', JNum 40),
                 (''NonDfsUsedSpace'', JNum 1024)],
           JObj [(''name'', JStr ''java.lang:type=Runtime''), (''Uptime'', JNum 5)]])]))) =
          \<lparr>sent = Metric (up (NewExporter [])) GaugeValue 1 #
                  concat (map (bean_metrics (NewExporter [])) [?status]) @
                  map (row_metric (NewExporter []) ?info) ?ok,
           panicked = Some (TypeAssertionError (index ?info (row_field ?r)))\<rparr>"
    by blast
  with split pre rows ok fault
  have "Collect (NewExporter []) (GetResponse 200 (Some (JObj [(''beans'', JArr
          [JObj [(''name'', JStr ''Hadoop:service=NameNode,name=NameNodeStatus'')],
           JObj [(''name'', JStr ''Hadoop:service=NameNode,name=NameNodeInfo''),
                 (''Safemode'', JStr ''''), (''PercentUsed'', JNum 40),
                 (''NonDfsUsedSpace'', JNum 1024)],
           JObj [(''name'', JStr ''java.lang:type=Runtime''), (''Uptime'', JNum 5)]])]))) =
          \<lparr>sent = Metric (up (NewExporter [])) GaugeValue 1 #
                  concat (map (bean_metrics (NewExporter [])) [?status]) @
                  map (row_metric (NewExporter []) ?info) ?ok,
           panicked = Some (TypeAssertionError (index ?info (row_field ?r)))\<rparr>"
    by blast
  moreover have "filter (applies ?status) field_mapping =
      [Row state GaugeValue ''Hadoop:service=NameNode,name=NameNodeStatus'' ''State''
         (EqualsString ''active'')]"
    by (simp add: field_mapping_def applies_def index_def)
  ultimately show ?thesis
    by (simp add: bean_metrics_def row_metric_def coerce_def index_def)
qed

section \<open>The samples of single fields\<close>

text \<open>
  The next four theorems are about a bean at any place of the array that the loop
  reaches: the beans before it (\<open>pre\<close>) ran without a panic.
\<close>

text \<open>
  Claim C4. For a bean named \<^verbatim>\<open>Hadoop:service=NameNode,name=NameNodeStatus\<close> whose \<^verbatim>\<open>State\<close>
  is a string, the case sends exactly one metric, on the state descriptor: 1 when the
  string is \<^verbatim>\<open>active\<close>, 0 for every other string, the empty one included. The run goes on
  with the beans after it.
\<close>

theorem Collect_state_sample:
  assumes "Decode body = Inr envelope"
    and "Beans envelope = pre @ b # post"
    and "panicked (range_Beans e pre [Metric (up e) GaugeValue 1]) = None"
    and "index b ''name'' = JStr ''Hadoop:service=NameNode,name=NameNodeStatus''"
    and "index b ''State'' = JStr s"
  shows "Collect e (GetResponse 200 body) =
           range_Beans e post
             (sent (range_Beans e pre [Metric (up e) GaugeValue 1]) @
              [Metric (state e) GaugeValue (if s = ''active'' then 1 else 0)])"
  using assms by (simp add: Collect_reach MustNewConstMetric_def sends_NameNodeStatus)

theorem Collect_state_sample_witness:
  "Collect (NewExporter []) (GetResponse 200 (Some (JObj [(''beans'', JArr
      [JObj [(''name'', JStr ''Hadoop:service=NameNode,name=NameNodeStatus''),
             (''State'', JStr ''standby'')]])]))) =
   \<lparr>sent = [Metric (up (NewExporter [])) GaugeValue 1,
            Metric (state (NewExporter [])) GaugeValue 0],
    panicked = None\<rparr>"
  using Collect_state_sample [of
      "Some (JObj [(''beans'', JArr
        [JObj [(''name'', JStr ''Hadoop:service=NameNode,name=NameNodeStatus''),
               (''State'', JStr ''standby'')]])])"
      "\<lparr>Beans = [[''name'' \<mapsto> JStr ''Hadoop:service=NameNode,name=NameNodeStatus'',
                   ''State'' \<mapsto> JStr ''standby'']]\<rparr>"
      "[]"
      "[''name'' \<mapsto> JStr ''Hadoop:service=NameNode,name=NameNodeStatus'',
        ''State'' \<mapsto> JStr ''standby'']"
      "[]" "NewExporter []" "''standby''"]
  by (simp add: Decode_def isBeansKey_def foldByte_def index_def)

text \<open>
  Claim C5. For a bean named \<^verbatim>\<open>Hadoop:service=NameNode,name=NameNodeInfo\<close> whose \<^verbatim>\<open>Safemode\<close>
  is a string, the first metric of the case is on the safemode descriptor, with value 0
  when the string is empty and 1 when it is not; a string of blanks is not empty.
\<close>

theorem Collect_safemode_sample:
  assumes "Decode body = Inr envelope"
    and "Beans envelope = pre @ b # post"
    and "panicked (range_Beans e pre [Metric (up e) GaugeValue 1]) = None"
    and "index b ''name'' = JStr ''Hadoop:service=NameNode,name=NameNodeInfo''"
    and "index b ''Safemode'' = JStr s"
  shows "\<exists>later. sent (Collect e (GetResponse 200 body)) =
           sent (range_Beans e pre [Metric (up e) GaugeValue 1]) @
           Metric (safemodeOn e) GaugeValue (if s = [] then 0 else 1) # later"
proof -
  from Collect_reach_sent [OF assms(1-3)] obtain l1 where
    "sent (Collect e (GetResponse 200 body)) =
       sent (sends (switch_name e b) (sent (range_Beans e pre [Metric (up e) GaugeValue 1]))) @ l1"
    by blast
  moreover from sends_NameNodeInfo [OF assms(4)] obtain l2 where
    "sent (sends (switch_name e b) (sent (range_Beans e pre [Metric (up e) GaugeValue 1]))) =
       sent (range_Beans e pre [Metric (up e) GaugeValue 1]) @
       Metric (safemodeOn e) GaugeValue (if index b ''Safemode'' = JStr [] then 0 else 1) # l2"
    by blast
  ultimately show ?thesis
    using assms(5) by simp
qed

theorem Collect_safemode_sample_witness:
  "\<exists>later. sent (Collect (NewExporter []) (GetResponse 200 (Some (JObj [(''beans'', JArr
      [JObj [(''name'', JStr ''Hadoop:service=NameNode,name=NameNodeInfo''),
             (''Safemode'', JStr '' '')]])])))) =
     Metric (up (NewExporter [])) GaugeValue 1 #
     Metric (safemodeOn (NewExporter [])) GaugeValue 1 # later"
  using Collect_safemode_sample [of
      "Some (JObj [(''beans'', JArr
        [JObj [(''name'', JStr ''Hadoop:service=NameNode,name=NameNodeInfo''),
               (''Safemode'', JStr '' '')]])])"
      "\<lparr>Beans = [[''name'' \<mapsto> JStr ''Hadoop:service=NameNode,name=NameNodeInfo'',
                   ''Safemode'' \<mapsto> JStr '' '']]\<rparr>"
      "[]"
      "[''name'' \<mapsto> JStr ''Hadoop:service=NameNode,name=NameNodeInfo'',
        ''Safemode'' \<mapsto> JStr '' '']"
      "[]" "NewExporter []" "'' ''"]
  by (simp add: Decode_def isBeansKey_def foldByte_def index_def)

text \<open>
  Claim C6. For a bean named \<^verbatim>\<open>java.lang:type=Runtime\<close> whose \<^verbatim>\<open>Uptime\<close> is a number, the case
  sends exactly one metric, on the uptime descriptor, with that number as its value,
  unchanged. The descriptor the exporter is built with is named
  \<^verbatim>\<open>namenode_uptime_seconds\<close>.
\<close>

theorem Collect_uptime_sample:
  assumes "Decode body = Inr envelope"
    and "Beans envelope = pre @ b # post"
    and "panicked (range_Beans e pre [Metric (up e) GaugeValue 1]) = None"
    and "index b ''name'' = JStr ''java.lang:type=Runtime''"
    and "index b ''Uptime'' = JNum f"
  shows "Collect e (GetResponse 200 body) =
           range_Beans e post
             (sent (range_Beans e pre [Metric (up e) GaugeValue 1]) @
              [Metric (uptime e) GaugeValue f]) \<and>
         fqName (uptime (NewExporter u)) = ''namenode_uptime_seconds''"
  using assms
  by (simp add: Collect_reach MustNewConstMetric_def sends_Runtime exporter_defs)

theorem Collect_uptime_sample_witness:
  "Collect (NewExporter []) (GetResponse 200 (Some (JObj [(''beans'', JArr
      [JObj [(''name'', JStr ''java.lang:type=Runtime''), (''Uptime'', JNum 86400123)]])]))) =
   \<lparr>sent = [Metric (up (NewExporter [])) GaugeValue 1,
            Metric (uptime (NewExporter [])) GaugeValue 86400123],
    panicked = None\<rparr> \<and>
   fqName (uptime (NewExporter [])) = ''namenode_uptime_seconds''"
  using Collect_uptime_sample [of
      "Some (JObj [(''beans'', JArr
        [JObj [(''name'', JStr ''java.lang:type=Runtime''), (''Uptime'', JNum 86400123)]])])"
      "\<lparr>Beans = [[''name'' \<mapsto> JStr ''java.lang:type=Runtime'',
                   ''Uptime'' \<mapsto> JNum 86400123]]\<rparr>"
      "[]"
      "[''name'' \<mapsto> JStr ''java.lang:type=Runtime'', ''Uptime'' \<mapsto> JNum 86400123]"
      "[]" "NewExporter []" "86400123" "[]"]
  by (simp add: Decode_def isBeansKey_def foldByte_def index_def)

text \<open>
  Claim C10. For a bean named \<^verbatim>\<open>Hadoop:service=NameNode,name=NameNodeInfo\<close> whose \<^verbatim>\<open>Safemode\<close>
  is absent, or holds a value that is not a string, the first metric of the case is on
  the safemode descriptor with value 1: the nil interface, like any non-string, differs
  from the empty string, and the comparison is no coercion fault.
\<close>

theorem Collect_safemode_absent:
  assumes "Decode body = Inr envelope"
    and "Beans envelope = pre @ b # post"
    and "panicked (range_Beans e pre [Metric (up e) GaugeValue 1]) = None"
    and "index b ''name'' = JStr ''Hadoop:service=NameNode,name=NameNodeInfo''"
    and "\<not> is_string (index b ''Safemode'')"
  shows "\<exists>later. sent (Collect e (GetResponse 200 body)) =
           sent (range_Beans e pre [Metric (up e) GaugeValue 1]) @
           Metric (safemodeOn e) GaugeValue 1 # later"
proof -
  from Collect_reach_sent [OF assms(1-3)] obtain l1 where
    "sent (Collect e (GetResponse 200 body)) =
       sent (sends (switch_name e b) (sent (range_Beans e pre [Metric (up e) GaugeValue 1]))) @ l1"
    by blast
  moreover from sends_NameNodeInfo [OF assms(4)] obtain l2 where
    "sent (sends (switch_name e b) (sent (range_Beans e pre [Metric (up e) GaugeValue 1]))) =
       sent (range_Beans e pre [Metric (up e) GaugeValue 1]) @
       Metric (safemodeOn e) GaugeValue (if index b ''Safemode'' = JStr [] then 0 else 1) # l2"
    by blast
  moreover from assms(5) have "index b ''Safemode'' \<noteq> JStr []"
    by auto
  ultimately show ?thesis
    by simp
qed

theorem Collect_safemode_absent_witness:
  "\<exists>later. sent (Collect (NewExporter []) (GetResponse 200 (Some (JObj [(''beans'', JArr
      [JObj [(''name'', JStr ''Hadoop:service=NameNode,name=NameNodeInfo'')]])])))) =
     Metric (up (NewExporter [])) GaugeValue 1 #
     Metric (safemodeOn (NewExporter [])) GaugeValue 1 # later"
  using Collect_safemode_absent [of
      "Some (JObj [(''beans'', JArr
        [JObj [(''name'', JStr ''Hadoop:service=NameNode,name=NameNodeInfo'')]])])"
      "\<lparr>Beans = [[''name'' \<mapsto> JStr ''Hadoop:service=NameNode,name=NameNodeInfo'']]\<rparr>"
      "[]"
      "[''name'' \<mapsto> JStr ''Hadoop:service=NameNode,name=NameNodeInfo'']"
      "[]" "NewExporter []"]
  by (simp add: Decode_def isBeansKey_def foldByte_def index_def)

section \<open>Beans the exporter does not read\<close>

lemma range_Beans_filter_recognized:
  "range_Beans e (filter recognized beans) ch = range_Beans e beans ch"
  by (induction beans arbitrary: ch)
     (simp_all add: switch_name_unrecognized Let_def split: option.splits)

text \<open>
  Claim C8. Take an envelope and the envelope left when every bean whose name is not
  one of the six recognized strings is removed from its array: \<open>Collect\<close> runs the same on
  both, metric for metric, panic for panic. When no bean of the array is recognized, the
  reachability gauge with value 1 is all that is sent.
\<close>

theorem Collect_ignores_unrecognized:
  assumes "Decode body = Inr envelope"
    and "Decode body' = Inr (envelope\<lparr>Beans := filter recognized (Beans envelope)\<rparr>)"
  shows "Collect e (GetResponse 200 body') = Collect e (GetResponse 200 body) \<and>
         ((\<forall>b\<in>set (Beans envelope). \<not> recognized b) \<longrightarrow>
            Collect e (GetResponse 200 body) =
              \<lparr>sent = [Metric (up e) GaugeValue 1], panicked = None\<rparr>)"
proof (intro conjI impI)
  show "Collect e (GetResponse 200 body') = Collect e (GetResponse 200 body)"
    by (simp add: Collect_ok [OF assms(1)] Collect_ok [OF assms(2)] range_Beans_filter_recognized)
next
  assume "\<forall>b\<in>set (Beans envelope). \<not> recognized b"
  then have "filter recognized (Beans envelope) = []"
    by (simp add: filter_empty_conv)
  with range_Beans_filter_recognized [of e "Beans envelope" "[Metric (up e) GaugeValue 1]"]
  show "Collect e (GetResponse 200 body) =
          \<lparr>sent = [Metric (up e) GaugeValue 1], panicked = None\<rparr>"
    by (simp add: Collect_ok [OF assms(1)] MustNewConstMetric_def)
qed

theorem Collect_ignores_unrecognized_witness:
  "Collect (NewExporter []) (GetResponse 200 (Some (JObj [(''beans'', JArr
      [JObj [(''name'', JStr ''java.lang:type=Runtime''), (''Uptime'', JNum 7)]])]))) =
   Collect (NewExporter []) (GetResponse 200 (Some (JObj [(''beans'', JArr
      [JObj [(''name'', JStr ''java.lang:type=Memory'')],
       JObj [(''name'', JStr ''java.lang:type=Runtime''), (''Uptime'', JNum 7)],
       JObj [(''Uptime'', JNum 9)]])]))) \<and>
   Collect (NewExporter []) (GetResponse 200 (Some (JObj [(''beans'', JArr
      [JObj [(''name'', JStr ''java.lang:type=Memory''), (''Uptime'', JNum 9)]])]))) =
     \<lparr>sent = [Metric (up (NewExporter [])) GaugeValue 1], panicked = None\<rparr>"
proof -
  let ?mixed = "\<lparr>Beans =
       [[''name'' \<mapsto> JStr ''java.lang:type=Memory''],
        [''name'' \<mapsto> JStr ''java.lang:type=Runtime'', ''Uptime'' \<mapsto> JNum 7],
        [''Uptime'' \<mapsto> JNum 9]]\<rparr>"
  let ?foreign = "\<lparr>Beans =
       [[''name'' \<mapsto> JStr ''java.lang:type=Memory'', ''Uptime'' \<mapsto> JNum 9]]\<rparr>"
  have dec: "Decode (Some (JObj [(''beans'', JArr
      [JObj [(''name'', JStr ''java.lang:type=Memory'')],
       JObj [(''name'', JStr ''java.lang:type=Runtime''), (''Uptime'', JNum 7)],
       JObj [(''Uptime'', JNum 9)]])])) = Inr ?mixed"
    by (simp add: Decode_def isBeansKey_def foldByte_def)
  have dec': "Decode (Some (JObj [(''beans'', JArr
      [JObj [(''name'', JStr ''java.lang:type=Runtime''), (''Uptime'', JNum 7)]])])) =
     Inr (?mixed\<lparr>Beans := filter recognized (Beans ?mixed)\<rparr>)"
    by (simp add: Decode_def isBeansKey_def foldByte_def recognized_def recognizedNames_def
        index_def)
  have none: "Decode (Some (JObj [(''beans'', JArr
      [JObj [(''name'', JStr ''java.lang:type=Memory''), (''Uptime'', JNum 9)]])])) =
     Inr ?foreign"
    by (simp add: Decode_def isBeansKey_def foldByte_def)
  have none': "Decode (Some (JObj [(''beans'', JArr [])])) =
     Inr (?foreign\<lparr>Beans := filter recognized (Beans ?foreign)\<rparr>)"
    by (simp add: Decode_def isBeansKey_def foldByte_def recognized_def recognizedNames_def
        index_def)
  have un: "\<forall>b\<in>set (Beans ?foreign). \<not> recognized b"
    by (simp add: recognized_def recognizedNames_def index_def)
  from Collect_ignores_unrecognized [OF dec dec', of "NewExporter []"]
    Collect_ignores_unrecognized [OF none none', of "NewExporter []"] un
  show ?thesis
    by simp
qed

section \<open>The order of the metrics\<close>

text \<open>
  Claim C7. In a cycle that reaches the translation, the reachability gauge is the first
  metric on the channel. What follows it is, bean after bean in array order, the metrics
  of the rows of the table that apply to the bean, in table order: all of them when the
  run returns, and an initial part of that sequence when a panic ends it.
\<close>

theorem Collect_emission_order:
  assumes "Decode body = Inr envelope"
  shows "\<exists>fields.
           sent (Collect e (GetResponse 200 body)) = Metric (up e) GaugeValue 1 # fields \<and>
           prefix fields (concat (map (\<lambda>b. delivered (table_sends e b)) (Beans envelope))) \<and>
           (panicked (Collect e (GetResponse 200 body)) = None \<longrightarrow>
              fields = concat (map (\<lambda>b. delivered (table_sends e b)) (Beans envelope)))"
proof (cases "panicked (Collect e (GetResponse 200 body))")
  case None
  then have "\<forall>b\<in>set (Beans envelope). first_panic (switch_name e b) = None"
    by (simp add: Collect_ok [OF assms] range_Beans_panicked)
  from range_Beans_ok [OF this, of "[Metric (up e) GaugeValue 1]"] show ?thesis
    by (simp add: Collect_ok [OF assms] MustNewConstMetric_def switch_name_table)
next
  case (Some p)
  with range_Beans_prefix [of e "Beans envelope" "[Metric (up e) GaugeValue 1]"] show ?thesis
    by (simp add: Collect_ok [OF assms] MustNewConstMetric_def switch_name_table)
qed

theorem Collect_emission_order_witness:
  "Decode (Some (JObj [(''beans'', JArr
      [JObj [(''name'', JStr ''Hadoop:service=NameNode,name=NameNodeStatus''),
             (''State'', JStr ''active'')],
       JObj [(''name'', JStr ''java.lang:type=Memory'')],
       JObj [(''name'', JStr ''java.lang:type=Runtime''), (''Uptime'', JNum 3)]])])) =
     Inr \<lparr>Beans =
       [[''name'' \<mapsto> JStr ''Hadoop:service=NameNode,name=NameNodeStatus'',
         ''State'' \<mapsto> JStr ''active''],
        [''name'' \<mapsto> JStr ''java.lang:type=Memory''],
        [''name'' \<mapsto> JStr ''java.lang:type=Runtime'', ''Uptime'' \<mapsto> JNum 3]]\<rparr> \<and>
   sent (Collect (NewExporter []) (GetResponse 200 (Some (JObj [(''beans'', JArr
      [JObj [(''name'', JStr ''Hadoop:service=NameNode,name=NameNodeStatus''),
             (''State'', JStr ''active'')],
       JObj [(''name'', JStr ''java.lang:type=Memory'')],
       JObj [(''name'', JStr ''java.lang:type=Runtime''), (''Uptime'', JNum 3)]])])))) =
     Metric (up (NewExporter [])) GaugeValue 1 #
     concat (map (\<lambda>b. delivered (table_sends (NewExporter []) b))
       [[''name'' \<mapsto> JStr ''Hadoop:service=NameNode,name=NameNodeStatus'',
         ''State'' \<mapsto> JStr ''active''],
        [''name'' \<mapsto> JStr ''java.lang:type=Memory''],
        [''name'' \<mapsto> JStr ''java.lang:type=Runtime'', ''Uptime'' \<mapsto> JNum 3]])"
proof -
  have dec: "Decode (Some (JObj [(''beans'', JArr
      [JObj [(''name'', JStr ''Hadoop:service=NameNode,name=NameNodeStatus''),
             (''State'', JStr ''active'')],
       JObj [(''name'', JStr ''java.lang:type=Memory'')],
       JObj [(''name'', JStr ''java.lang:type=Runtime''), (''Uptime'', JNum 3)]])])) =
     Inr \<lparr>Beans =
       [[''name'' \<mapsto> JStr ''Hadoop:service=NameNode,name=NameNodeStatus'',
         ''State'' \<mapsto> JStr ''active''],
        [''name'' \<mapsto> JStr ''java.lang:type=Memory''],
        [''name'' \<mapsto> JStr ''java.lang:type=Runtime'', ''Uptime'' \<mapsto> JNum 3]]\<rparr>"
    by (simp add: Decode_def isBeansKey_def foldByte_def)
  have np: "panicked (Collect (NewExporter []) (GetResponse 200 (Some (JObj [(''beans'', JArr
      [JObj [(''name'', JStr ''Hadoop:service=NameNode,name=NameNodeStatus''),
             (''State'', JStr ''active'')],
       JObj [(''name'', JStr ''java.lang:type=Memory'')],
       JObj [(''name'', JStr ''java.lang:type=Runtime''), (''Uptime'', JNum 3)]])])))) = None"
    by (simp add: run_defs)
  from Collect_emission_order [OF dec, of "NewExporter []"] np dec show ?thesis
    by auto
qed

section \<open>The full sample set\<close>

lemma mset_concat_map_append:
  "mset (concat (map (\<lambda>x. f x @ g x) xs)) =
   mset (concat (map f xs)) + mset (concat (map g xs))"
  by (induction xs) simp_all

lemma concat_map_if_single:
  "concat (map (\<lambda>x. if P x then [f x] else []) xs) = map f (filter P xs)"
  by (induction xs) simp_all

text \<open>
  Rows against beans: when every row applies to exactly one bean of the array, running
  through the beans and, for each, through its rows yields, up to order, one entry per row.
\<close>

lemma mset_rows_of_beans:
  assumes "\<forall>r\<in>set rows. filter (\<lambda>b. P b r) beans = [pick r]"
  shows "mset (concat (map (\<lambda>b. map (f b) (filter (P b) rows)) beans)) =
         mset (map (\<lambda>r. f (pick r) r) rows)"
  using assms
proof (induction rows)
  case Nil
  show ?case by simp
next
  case (Cons r rows)
  have split: "\<And>b. map (f b) (filter (P b) (r # rows)) =
      (if P b r then [f b r] else []) @ map (f b) (filter (P b) rows)"
    by simp
  have "mset (concat (map (\<lambda>b. if P b r then [f b r] else []) beans)) = {#f (pick r) r#}"
    using Cons.prems by (simp add: concat_map_if_single)
  moreover have "mset (concat (map (\<lambda>b. map (f b) (filter (P b) rows)) beans)) =
      mset (map (\<lambda>r. f (pick r) r) rows)"
    using Cons by simp
  ultimately show ?case
    unfolding split mset_concat_map_append by simp
qed

lemma find_filter_single: "filter P xs = [x] \<Longrightarrow> find P xs = Some x"
  by (induction xs) (auto split: if_splits)

lemma row_bean_recognized: "r \<in> set field_mapping \<Longrightarrow> row_bean r \<in> set recognizedNames"
  unfolding field_mapping_def recognizedNames_def by auto

lemma populated_one_bean:
  assumes "fully_populated beans" and "r \<in> set field_mapping"
  shows "filter (\<lambda>b. applies b r) beans = [theBean beans (row_bean r)]"
proof -
  from assms have "length (filter (\<lambda>b. index b ''name'' = JStr (row_bean r)) beans) = 1"
    by (simp add: fully_populated_def row_bean_recognized)
  then obtain x where x: "filter (\<lambda>b. index b ''name'' = JStr (row_bean r)) beans = [x]"
    by (auto simp add: length_Suc_conv)
  then have "theBean beans (row_bean r) = x"
    by (simp add: theBean_def find_filter_single)
  with x show ?thesis
    by (simp add: applies_def)
qed

lemma populated_no_fault:
  assumes "fully_populated beans" and "b \<in> set beans" and "r \<in> set field_mapping"
    and "applies b r"
  shows "\<not> coercion_fault b r"
proof -
  from assms have "well_typed (row_rule r) (index b (row_field r))"
    by (simp add: fully_populated_def)
  then show ?thesis
    by (auto simp add: coercion_fault_def well_typed_def)
qed

lemma populated_delivered:
  assumes "fully_populated beans" and "b \<in> set beans"
  shows "first_panic (switch_name e b) = None"
    and "delivered (switch_name e b) =
           map (\<lambda>r. Metric (row_desc r e) (row_type r)
                       (coerce (row_rule r) (index b (row_field r))))
             (filter (applies b) field_mapping)"
proof -
  have ok: "\<forall>r\<in>set (filter (applies b) field_mapping). \<not> coercion_fault b r"
    using assms populated_no_fault by auto
  then show "first_panic (switch_name e b) = None"
    by (simp add: first_panic_table)
  from ok have "\<forall>x\<in>set (switch_name e b). \<not> isl x"
    by (auto simp add: switch_name_table table_sends_def row_send_isl)
  then have "delivered (switch_name e b) = map projr (switch_name e b)"
    by (rule delivered_all)
  also have "\<dots> = map (\<lambda>r. Metric (row_desc r e) (row_type r)
                       (coerce (row_rule r) (index b (row_field r))))
             (filter (applies b) field_mapping)"
    using ok by (simp add: switch_name_table table_sends_def row_send_def)
  finally show "delivered (switch_name e b) =
           map (\<lambda>r. Metric (row_desc r e) (row_type r)
                       (coerce (row_rule r) (index b (row_field r))))
             (filter (applies b) field_mapping)" .
qed

lemma full_sample_set_descs: "map desc (full_sample_set e beans) = Describe e"
  by (simp add: full_sample_set_def field_mapping_def Describe_def)

text \<open>
  Claim C1, as the code has it. For a decoded envelope in which each of the recognized
  names is carried by exactly one bean and every mapped field holds a value of the
  expected type, \<open>Collect\<close> returns without a panic and has sent exactly the full sample
  set: the reachability gauge with value 1 and, for each of the 38 rows of the table, one
  metric on the row's descriptor whose value is the one the row's field holds in the bean
  of the row's name. The two lists agree as multisets, so nothing is missing and nothing
  is extra; there are 39 metrics, and their descriptors are those of \<open>Describe\<close>. The code
  recognizes six bean names.
\<close>

theorem Collect_full_sample_set:
  assumes "Decode body = Inr envelope" and "fully_populated (Beans envelope)"
  shows "panicked (Collect e (GetResponse 200 body)) = None \<and>
         mset (sent (Collect e (GetResponse 200 body))) =
           mset (full_sample_set e (Beans envelope)) \<and>
         length (sent (Collect e (GetResponse 200 body))) = 39 \<and>
         map desc (full_sample_set e (Beans envelope)) = Describe e"
proof -
  let ?beans = "Beans envelope"
  let ?sample = "\<lambda>b r. Metric (row_desc r e) (row_type r)
                          (coerce (row_rule r) (index b (row_field r)))"
  have nopanic: "\<forall>b\<in>set ?beans. first_panic (switch_name e b) = None"
    using populated_delivered(1) [OF assms(2)] by blast
  from range_Beans_ok [OF nopanic, of "[Metric (up e) GaugeValue 1]"]
  have run: "Collect e (GetResponse 200 body) =
      \<lparr>sent = Metric (up e) GaugeValue 1 #
               concat (map (\<lambda>b. delivered (switch_name e b)) ?beans),
       panicked = None\<rparr>"
    by (simp add: Collect_ok [OF assms(1)] MustNewConstMetric_def)
  have "map (\<lambda>b. delivered (switch_name e b)) ?beans =
        map (\<lambda>b. map (?sample b) (filter (applies b) field_mapping)) ?beans"
    using populated_delivered(2) [OF assms(2)] by simp
  then have "mset (concat (map (\<lambda>b. delivered (switch_name e b)) ?beans)) =
        mset (concat (map (\<lambda>b. map (?sample b) (filter (applies b) field_mapping)) ?beans))"
    by (rule arg_cong [where f = "\<lambda>xs. mset (concat xs)"])
  also have "\<dots> = mset (map (\<lambda>r. ?sample (theBean ?beans (row_bean r)) r) field_mapping)"
    by (rule mset_rows_of_beans) (simp add: populated_one_bean [OF assms(2)])
  finally have m: "mset (sent (Collect e (GetResponse 200 body))) =
      mset (full_sample_set e ?beans)"
    by (simp add: run full_sample_set_def)
  from m have "length (sent (Collect e (GetResponse 200 body))) =
      length (full_sample_set e ?beans)"
    by (rule mset_eq_length)
  then have l: "length (sent (Collect e (GetResponse 200 body))) = 39"
    by (simp add: full_sample_set_def field_mapping_def)
  from run m l full_sample_set_descs show ?thesis
    by simp
qed

lemma full_document_decodes:
  "Decode (Some full_document) = Inr (projr (Decode (Some full_document)))"
proof -
  have "\<not> decode_fails (Some full_document)"
    by (simp add: full_document_def full_beans_def isBeansKey_def foldByte_def)
  then show ?thesis
    using Decode_fails [of "Some full_document"] by simp
qed

lemma full_document_populated:
  "fully_populated (Beans (projr (Decode (Some full_document))))"
  by code_simp

theorem Collect_full_sample_set_witness:
  "fully_populated (Beans (projr (Decode (Some full_document)))) \<and>
   panicked (Collect (NewExporter []) (GetResponse 200 (Some full_document))) = None \<and>
   length (sent (Collect (NewExporter []) (GetResponse 200 (Some full_document)))) = 39"
  using Collect_full_sample_set [OF full_document_decodes full_document_populated,
      of "NewExporter []"] full_document_populated
  by simp

text \<open>
  The claim as stated asks only that the recognized names be present. The loop runs the
  case of a name once for every bean that carries it: with a second Runtime bean in the
  array, every name is present and every mapped field is populated, and the run sends 40
  metrics, two of them on the uptime descriptor, where the full sample set has 39.
\<close>

theorem Collect_second_Runtime_bean:
  "names_present (Beans (projr (Decode (Some doubled_document)))) \<and>
   fields_populated (Beans (projr (Decode (Some doubled_document)))) \<and>
   panicked (Collect (NewExporter []) (GetResponse 200 (Some doubled_document))) = None \<and>
   length (sent (Collect (NewExporter []) (GetResponse 200 (Some doubled_document)))) = 40 \<and>
   length (full_sample_set (NewExporter [])
     (Beans (projr (Decode (Some doubled_document))))) = 39 \<and>
   filter (\<lambda>m. desc m = uptime (NewExporter []))
     (sent (Collect (NewExporter []) (GetResponse 200 (Some doubled_document)))) =
     [Metric (uptime (NewExporter [])) GaugeValue 86400123,
      Metric (uptime (NewExporter [])) GaugeValue 5]"
  by code_simp

section \<open>Describe announces what Collect sends\<close>

text \<open>
  Claim C9. The descriptors announced by \<open>Describe\<close> contain the descriptor of every
  metric \<open>Collect\<close> sends, whatever the fetch returned and whatever the document holds:
  the reachability gauge of a failed or successful cycle, and the metrics of every case
  of the switch, also those sent before a panic.
\<close>

theorem Collect_within_Describe:
  "\<forall>m\<in>set (sent (Collect e got)). desc m \<in> set (Describe e)"
proof
  fix m
  assume m: "m \<in> set (sent (Collect e got))"
  have up: "up e \<in> set (Describe e)"
    by (simp add: Describe_def)
  show "desc m \<in> set (Describe e)"
  proof (cases "\<exists>body envelope. got = GetResponse 200 body \<and> Decode body = Inr envelope")
    case False
    then have "sent (Collect e got) = [MustNewConstMetric (up e) GaugeValue 0]"
      by (auto simp add: Collect_def StatusOK_def split: get_result.splits sum.splits)
    with m up show ?thesis
      by (simp add: MustNewConstMetric_def)
  next
    case True
    then obtain body envelope where
      got: "got = GetResponse 200 body" and dec: "Decode body = Inr envelope"
      by blast
    obtain fields where
      s: "sent (Collect e got) = [MustNewConstMetric (up e) GaugeValue 1] @ fields" and
      p: "prefix fields (concat (map (\<lambda>b. delivered (switch_name e b)) (Beans envelope)))"
      using range_Beans_prefix [of e "Beans envelope" "[MustNewConstMetric (up e) GaugeValue 1]"]
      by (auto simp add: got Collect_ok [OF dec])
    from m s consider "m = MustNewConstMetric (up e) GaugeValue 1" | "m \<in> set fields"
      by auto
    then show ?thesis
    proof cases
      case 1
      with up show ?thesis by (simp add: MustNewConstMetric_def)
    next
      case 2
      with p have "m \<in> set (concat (map (\<lambda>b. delivered (switch_name e b)) (Beans envelope)))"
        using set_mono_prefix by blast
      then obtain b where "m \<in> set (delivered (switch_name e b))"
        by auto
      then have "Inr m \<in> set (table_sends e b)"
        using delivered_subset by (simp add: switch_name_table)
      then show ?thesis
        by (rule table_sends_desc)
    qed
  qed
qed

text \<open>
  At a document with one Runtime bean, the uptime metric is on the channel and its
  descriptor is among those of \<open>Describe\<close>.
\<close>

theorem Collect_within_Describe_witness:
  "Metric (uptime (NewExporter [])) GaugeValue 5 \<in>
     set (sent (Collect (NewExporter []) (GetResponse 200 (Some (JObj [(''beans'',
       JArr [JObj [(''name'', JStr ''java.lang:type=Runtime''), (''Uptime'', JNum 5)]])]))))) \<and>
   desc (Metric (uptime (NewExporter [])) GaugeValue 5) \<in> set (Describe (NewExporter []))"
proof -
  have mem: "Metric (uptime (NewExporter [])) GaugeValue 5 \<in>
     set (sent (Collect (NewExporter []) (GetResponse 200 (Some (JObj [(''beans'',
       JArr [JObj [(''name'', JStr ''java.lang:type=Runtime''), (''Uptime'', JNum 5)]])])))))"
    by (simp add: run_defs)
  with Collect_within_Describe show ?thesis
    by blast
qed

end
